theory Spec2Isabelle
  imports Complex_Main "HOL-Library.AList"
begin

section \<open>Python values and dictionaries\<close>

text \<open>
  The configuration handled by \<open>ui_utils.py\<close> is the result of \<open>json.load\<close>: nested
  dictionaries with string keys, lists, strings, numbers, booleans and \<open>None\<close>. A dictionary
  is an association list in insertion order, as a Python \<open>dict\<close> keeps it; a well-formed
  dictionary has pairwise distinct keys. A finite float is represented by its exact
  rational value. The model has value semantics: it is the code's behaviour on documents
  that share no mutable object, which is what \<open>json.load\<close> returns.
\<close>

datatype pyval =
    PNone
  | PBool bool
  | PInt int
  | PFloat rat
  | PStr string
  | PList "pyval list"
  | PDict "(string \<times> pyval) list"

type_synonym dict = "(string \<times> pyval) list"

text \<open>\<open>bool(v)\<close>: the truth value Python gives a value in an \<open>if\<close>.\<close>

fun truthy :: "pyval \<Rightarrow> bool" where
  "truthy PNone = False"
| "truthy (PBool b) = b"
| "truthy (PInt n) = (n \<noteq> 0)"
| "truthy (PFloat x) = (x \<noteq> 0)"
| "truthy (PStr s) = (s \<noteq> [])"
| "truthy (PList xs) = (xs \<noteq> [])"
| "truthy (PDict d) = (d \<noteq> [])"

text \<open>\<open>isinstance(v, dict)\<close>.\<close>

fun is_dict :: "pyval \<Rightarrow> bool" where
  "is_dict (PDict d) = True"
| "is_dict v = False"

text \<open>\<open>d.get(k)\<close>: the value stored under \<open>k\<close>, or \<open>None\<close>.\<close>

definition dict_get :: "dict \<Rightarrow> string \<Rightarrow> pyval" where
  "dict_get d k = (case map_of d k of None \<Rightarrow> PNone | Some v \<Rightarrow> v)"

text \<open>
  \<open>d[k] = v\<close> is \<^const>\<open>AList.update\<close>: the value of an existing key is replaced in
  place, a new key is appended at the end.
\<close>

section \<open>Errors\<close>

text \<open>
  The texts of the source's messages are f-strings in Chinese; a message is represented
  by a constructor that carries the interpolated values.

  \<^item> \<open>Msg_script_not_found p\<close>: the text of the \<open>FileNotFoundError\<close> for
    \<open>websocket-server.py\<close>, naming the path \<open>p\<close> (line 117);
  \<^item> \<open>Msg_ui_dir_not_found p\<close>: the text of the \<open>FileNotFoundError\<close> for the
    \<open>frontend\<close> directory, naming the path \<open>p\<close> (line 159);
  \<^item> \<open>Msg_ws_start_failed\<close>: the WebSocket server failed to start (line 145);
  \<^item> \<open>Msg_ws_started port\<close>, \<open>Msg_see_ws_log\<close>: the two lines printed when the backend
    is up (lines 147, 148);
  \<^item> \<open>Msg_ui_started port\<close>: the Agent UI is up at \<open>http://localhost:port\<close>
    (lines 165, 221);
  \<^item> \<open>Msg_static_mode\<close>: static files are used (line 166);
  \<^item> \<open>Msg_warn_no_static\<close>: no built static files, development mode is used instead
    (line 170);
  \<^item> \<open>Msg_installing_deps\<close>: the frontend's dependencies are being installed (line 176);
  \<^item> \<open>Msg_starting_dev port\<close>: the development server is being started (line 191);
  \<^item> \<open>Msg_building\<close>: the production build is being run (line 194);
  \<^item> \<open>Msg_port_in_use port\<close>: port \<open>port\<close> is already taken (line 217);
  \<^item> \<open>Msg_frontend_failed_see_log\<close>: the frontend failed to start, see
    \<open>frontend.log\<close> (line 219).
\<close>

type_synonym path = string

datatype message =
    Msg_script_not_found path
  | Msg_ui_dir_not_found path
  | Msg_ws_start_failed
  | Msg_ws_started pyval
  | Msg_see_ws_log
  | Msg_ui_started pyval
  | Msg_static_mode
  | Msg_warn_no_static
  | Msg_installing_deps
  | Msg_starting_dev pyval
  | Msg_building
  | Msg_port_in_use pyval
  | Msg_frontend_failed_see_log

text \<open>
  The exceptions of the source: the two it raises itself (\<open>FileNotFoundError\<close>,
  \<open>RuntimeError\<close>), \<open>CalledProcessError\<close> of \<open>subprocess.run(..., check=True)\<close>, the ones
  Python raises on an ill-shaped configuration (\<open>AttributeError\<close>, \<open>KeyError\<close>,
  \<open>TypeError\<close>), and what the operating system may answer (\<open>OSError\<close>,
  \<open>TimeoutExpired\<close>).
\<close>

datatype error =
    FileNotFoundError message
  | RuntimeError message
  | CalledProcessError
  | AttributeError
  | KeyError string
  | TypeError
  | OSError
  | TimeoutExpired

section \<open>UIConfigManager\<close>

subsection \<open>\<open>_deep_merge\<close>\<close>

text \<open>
  The loop runs over \<open>update.items()\<close> in order. For each pair, when the key is in
  \<open>base\<close> and both values are dictionaries the two are merged recursively, otherwise
  the value of \<open>update\<close> is stored under the key.
\<close>

fun deep_merge :: "dict \<Rightarrow> dict \<Rightarrow> dict" where
  "deep_merge base [] = base"
| "deep_merge base ((key, PDict u) # rest) =
     deep_merge
       (case map_of base key of
          Some (PDict b) \<Rightarrow> AList.update key (PDict (deep_merge b u)) base
        | _ \<Rightarrow> AList.update key (PDict u) base)
       rest"
| "deep_merge base ((key, v) # rest) = deep_merge (AList.update key v base) rest"

text \<open>
  What one round of the loop stores under \<open>key\<close>: the recursive merge when both sides
  hold a dictionary, the value of \<open>update\<close> otherwise.
\<close>

definition merged_value :: "dict \<Rightarrow> string \<Rightarrow> pyval \<Rightarrow> pyval" where
  "merged_value base key v =
     (case (map_of base key, v) of
        (Some (PDict b), PDict u) \<Rightarrow> PDict (deep_merge b u)
      | _ \<Rightarrow> v)"

subsection \<open>\<open>DEFAULT_CONFIG\<close>\<close>

text \<open>
  The default document of lines 15 to 39, as the class defines it. The welcome message is a
  Chinese text; it is a parameter here. (\<open>_load_config\<close> merges the user's file into a
  shallow copy of this document, so the nested dictionaries of the class attribute are
  written to as well; loading is not part of the model, which treats one document at a
  time.)
\<close>

definition DEFAULT_CONFIG :: "string \<Rightarrow> dict" where
  "DEFAULT_CONFIG welcome =
     [(''agent'', PDict
         [(''module'', PStr ''agent''),
          (''rootAgent'', PStr ''root_agent''),
          (''name'', PStr ''DP Agent Assistant''),
          (''description'', PStr ''AI Assistant powered by DP Agent SDK''),
          (''welcomeMessage'', PStr welcome)]),
      (''ui'', PDict [(''title'', PStr ''DP Agent Assistant''), (''theme'', PStr ''light'')]),
      (''files'', PDict
         [(''output_directory'', PStr ''./output''),
          (''watch_directories'', PList [PStr ''./output''])]),
      (''websocket'', PDict [(''port'', PInt 8000), (''host'', PStr ''localhost'')]),
      (''server'', PDict
         [(''port'', PInt 50002),
          (''host'', PList [PStr ''localhost'', PStr ''127.0.0.1''])])]"

subsection \<open>\<open>update_from_cli\<close>\<close>

text \<open>
  \<open>s.partition(sep)\<close> for a separator of one character: the part before the first
  occurrence, the separator, the part after it; \<open>(s, '', '')\<close> when the separator does not
  occur.
\<close>

definition str_partition :: "char \<Rightarrow> string \<Rightarrow> string \<times> string \<times> string" where
  "str_partition c s =
     (if c \<in> set s
      then (takeWhile (\<lambda>x. x \<noteq> c) s, [c], tl (dropWhile (\<lambda>x. x \<noteq> c) s))
      else (s, [], []))"

text \<open>
  The method mutates \<open>self.config\<close> statement by statement, so an exception leaves the
  assignments made before it in place: a step returns the exception, if any, and the
  configuration as it is then.
\<close>

type_synonym 'c upd = "'c \<Rightarrow> error option \<times> 'c"

definition skip :: "'c upd" where
  "skip c = (None, c)"

definition seq :: "'c upd \<Rightarrow> 'c upd \<Rightarrow> 'c upd" where
  "seq f g c = (case f c of (None, c') \<Rightarrow> g c' | (Some e, c') \<Rightarrow> (Some e, c'))"

text \<open>
  \<open>config[section][key] = v\<close>: \<open>KeyError\<close> when the section is missing, \<open>TypeError\<close> when
  it is not a dictionary (a string, a list and a number do not support the assignment).
\<close>

definition set_item2 :: "string \<Rightarrow> string \<Rightarrow> pyval \<Rightarrow> dict upd" where
  "set_item2 section key v config =
     (case map_of config section of
        None \<Rightarrow> (Some (KeyError section), config)
      | Some (PDict d) \<Rightarrow> (None, AList.update section (PDict (AList.update key v d)) config)
      | Some _ \<Rightarrow> (Some TypeError, config))"

text \<open>
  The agent override: \<open>kwargs['agent'].partition(':')\<close> exists for a string only; any other
  truthy value raises \<open>AttributeError\<close>.
\<close>

definition update_agent :: "pyval \<Rightarrow> dict upd" where
  "update_agent a =
     (case a of
        PStr s \<Rightarrow>
          (case str_partition CHR '':'' s of
             (module_name, _, variable) \<Rightarrow>
               seq (set_item2 ''agent'' ''module'' (PStr module_name))
                   (if variable \<noteq> [] then set_item2 ''agent'' ''rootAgent'' (PStr variable)
                    else skip))
      | _ \<Rightarrow> (\<lambda>config. (Some AttributeError, config)))"

definition update_from_cli :: "dict \<Rightarrow> dict upd" where
  "update_from_cli kwargs =
     seq (if truthy (dict_get kwargs ''agent'') then update_agent (dict_get kwargs ''agent'')
          else skip)
    (seq (if truthy (dict_get kwargs ''port'')
          then set_item2 ''server'' ''port'' (dict_get kwargs ''port'')
          else skip)
    (seq (if truthy (dict_get kwargs ''ws_port'')
          then set_item2 ''websocket'' ''port'' (dict_get kwargs ''ws_port'')
          else skip)
         (if truthy (dict_get kwargs ''host'')
          then seq (set_item2 ''server'' ''host'' (PList [dict_get kwargs ''host'']))
                   (set_item2 ''websocket'' ''host'' (dict_get kwargs ''host''))
          else skip)))"

text \<open>\<open>config[section][key]\<close>, for reading a setting back (\<open>None\<close> when it is not there).\<close>

definition get_item2 :: "dict \<Rightarrow> string \<Rightarrow> string \<Rightarrow> pyval option" where
  "get_item2 config section key =
     (case map_of config section of Some (PDict d) \<Rightarrow> map_of d key | _ \<Rightarrow> None)"

text \<open>
  \<open>config.get(section, {}).get(key, default)\<close>, as both process starters read a port: the
  default when the section or the key is missing, \<open>AttributeError\<close> when the section is
  there and is not a dictionary (it has no \<open>get\<close>).
\<close>

definition cfg_get2 :: "dict \<Rightarrow> string \<Rightarrow> string \<Rightarrow> pyval \<Rightarrow> error + pyval" where
  "cfg_get2 config section key dflt =
     (case map_of config section of
        None \<Rightarrow> Inr dflt
      | Some (PDict d) \<Rightarrow> (case map_of d key of None \<Rightarrow> Inr dflt | Some v \<Rightarrow> Inr v)
      | Some _ \<Rightarrow> Inl AttributeError)"

section \<open>The operating system\<close>

text \<open>
  \<open>UIProcessManager\<close> works through the operating system: it tests paths, opens log files,
  starts child processes, sleeps, polls and signals them. The model takes the operating
  system as a parameter: a type \<open>'w\<close> of worlds and one function per call, which answers
  from the world and returns the world after the call. Nothing is assumed of these
  functions, so a theorem holds whatever the children and the file system do; in particular
  two tests of one path (\<open>exists\<close>) are two calls and may answer differently. The working
  directory, the environment and \<open>sys.executable\<close> are read from the world, and \<open>poll\<close> does
  not raise.

  A \<open>Path\<close> is the string \<open>str\<close> gives for it. \<open>p / name\<close>, for a relative \<open>name\<close>, is the
  name alone when \<open>p\<close> is the current directory \<open>.\<close>, and otherwise \<open>p\<close>, a separator unless
  \<open>p\<close> ends with one (the root), and the name. A \<open>Popen\<close> object and an open file are handles.
  \<open>str\<close> of a configuration value is a field of the parameter too.
\<close>

definition joinpath :: "path \<Rightarrow> string \<Rightarrow> path" where
  "joinpath p name =
     (if p = [] \<or> p = ''.'' then name
      else if last p = CHR ''/'' then p @ name
      else p @ ''/'' @ name)"

type_synonym popen = nat
type_synonym fileobj = nat

text \<open>
  The arguments of \<open>subprocess.Popen\<close>; \<open>stderr\<close> is \<open>subprocess.STDOUT\<close> in both calls.
\<close>

record launch =
  l_args :: "string list"
  l_cwd :: path
  l_env :: "(string \<times> string) list"
  l_stdout :: fileobj

record 'w os =
  os_cwd :: "'w \<Rightarrow> path"
  os_environ :: "'w \<Rightarrow> (string \<times> string) list"
  os_executable :: "'w \<Rightarrow> string"
  os_exists :: "path \<Rightarrow> 'w \<Rightarrow> bool \<times> 'w"
  os_open :: "path \<Rightarrow> string \<Rightarrow> 'w \<Rightarrow> (error + fileobj) \<times> 'w"
  os_read :: "fileobj \<Rightarrow> 'w \<Rightarrow> (error + string) \<times> 'w"
  os_popen :: "launch \<Rightarrow> 'w \<Rightarrow> (error + popen) \<times> 'w"
  os_run :: "string list \<Rightarrow> path \<Rightarrow> 'w \<Rightarrow> error option \<times> 'w"
  os_sleep :: "rat \<Rightarrow> 'w \<Rightarrow> 'w"
  os_poll :: "popen \<Rightarrow> 'w \<Rightarrow> int option \<times> 'w"
  os_terminate :: "popen \<Rightarrow> 'w \<Rightarrow> error option \<times> 'w"
  os_kill :: "popen \<Rightarrow> 'w \<Rightarrow> error option \<times> 'w"
  os_wait :: "popen \<Rightarrow> rat \<Rightarrow> 'w \<Rightarrow> error option \<times> 'w"
  py_str :: "pyval \<Rightarrow> string"

text \<open>
  What a call of the manager does is observed as the list of its events, in order: each
  call to the operating system with its answer, and each line printed with \<open>click.echo\<close>.
\<close>

datatype event =
    Ev_echo message
  | Ev_exists path bool
  | Ev_open path string "error + fileobj"
  | Ev_close fileobj
  | Ev_read fileobj "error + string"
  | Ev_popen launch "error + popen"
  | Ev_run "string list" path "error option"
  | Ev_sleep rat
  | Ev_poll popen "int option"
  | Ev_terminate popen "error option"
  | Ev_kill popen "error option"
  | Ev_wait popen rat "error option"

text \<open>The commands started with \<open>Popen\<close> among the events, in order.\<close>

fun spawned :: "event list \<Rightarrow> string list list" where
  "spawned [] = []"
| "spawned (Ev_popen l r # t) = l_args l # spawned t"
| "spawned (e # t) = spawned t"

section \<open>UIProcessManager\<close>

text \<open>
  The fields of the object, and the world it runs in. \<open>processes\<close> is declared
  \<open>List[subprocess.Popen]\<close> and only \<open>Popen\<close> objects are appended to it; a \<open>Popen\<close> object
  is always truthy, so the tests \<open>if process and ...\<close> of \<open>cleanup\<close> reduce to their second
  part on such a list.
\<close>

record 'w manager =
  ui_dir :: path
  config :: dict
  processes :: "popen list"
  world :: 'w

text \<open>
  A method is a function from the state to its result (an exception or a value), the state
  after it and the events it produced. An exception keeps the state as it is when it is
  raised.
\<close>

type_synonym ('s, 'a) prog = "'s \<Rightarrow> (error + 'a) \<times> 's \<times> event list"

definition ret :: "'a \<Rightarrow> ('s, 'a) prog" where
  "ret x s = (Inr x, s, [])"

definition raise :: "error \<Rightarrow> ('s, 'a) prog" where
  "raise e s = (Inl e, s, [])"

definition bnd :: "('s, 'a) prog \<Rightarrow> ('a \<Rightarrow> ('s, 'b) prog) \<Rightarrow> ('s, 'b) prog" where
  "bnd m f s =
     (case m s of
        (Inl e, s', t) \<Rightarrow> (Inl e, s', t)
      | (Inr x, s', t) \<Rightarrow> (case f x s' of (r, s'', t') \<Rightarrow> (r, s'', t @ t')))"

definition lift :: "error + 'a \<Rightarrow> ('s, 'a) prog" where
  "lift r s = (r, s, [])"

definition gets :: "('s \<Rightarrow> 'a) \<Rightarrow> ('s, 'a) prog" where
  "gets f s = (Inr (f s), s, [])"

definition modify :: "('s \<Rightarrow> 's) \<Rightarrow> ('s, unit) prog" where
  "modify f s = (Inr (), f s, [])"

text \<open>\<open>try: ... except: pass\<close>: whatever the body raises is dropped.\<close>

definition try_pass :: "('s, unit) prog \<Rightarrow> ('s, unit) prog" where
  "try_pass m s = (case m s of (r, s', t) \<Rightarrow> (Inr (), s', t))"

text \<open>\<open>for x in xs: body\<close>; an exception of the body ends the loop.\<close>

fun for_each :: "('a \<Rightarrow> ('s, unit) prog) \<Rightarrow> 'a list \<Rightarrow> ('s, unit) prog" where
  "for_each body [] = ret ()"
| "for_each body (x # xs) = bnd (body x) (\<lambda>_. for_each body xs)"

subsection \<open>Calls to the operating system\<close>

definition echo :: "message \<Rightarrow> ('s, unit) prog" where
  "echo m s = (Inr (), s, [Ev_echo m])"

definition sys_try ::
  "('w \<Rightarrow> (error + 'a) \<times> 'w) \<Rightarrow> (error + 'a \<Rightarrow> event) \<Rightarrow> ('w manager, 'a) prog" where
  "sys_try call ev s = (case call (world s) of (r, w) \<Rightarrow> (r, s\<lparr>world := w\<rparr>, [ev r]))"

definition sys_do ::
  "('w \<Rightarrow> error option \<times> 'w) \<Rightarrow> (error option \<Rightarrow> event) \<Rightarrow> ('w manager, unit) prog" where
  "sys_do call ev s =
     (case call (world s) of
        (r, w) \<Rightarrow> ((case r of None \<Rightarrow> Inr () | Some e \<Rightarrow> Inl e), s\<lparr>world := w\<rparr>, [ev r]))"

definition path_exists :: "'w os \<Rightarrow> path \<Rightarrow> ('w manager, bool) prog" where
  "path_exists os p s =
     (case os_exists os p (world s) of (b, w) \<Rightarrow> (Inr b, s\<lparr>world := w\<rparr>, [Ev_exists p b]))"

definition open_file :: "'w os \<Rightarrow> path \<Rightarrow> string \<Rightarrow> ('w manager, fileobj) prog" where
  "open_file os p mode = sys_try (os_open os p mode) (Ev_open p mode)"

definition read_file :: "'w os \<Rightarrow> fileobj \<Rightarrow> ('w manager, string) prog" where
  "read_file os f = sys_try (os_read os f) (Ev_read f)"

definition popen :: "'w os \<Rightarrow> launch \<Rightarrow> ('w manager, popen) prog" where
  "popen os l = sys_try (os_popen os l) (Ev_popen l)"

definition run_check :: "'w os \<Rightarrow> string list \<Rightarrow> path \<Rightarrow> ('w manager, unit) prog" where
  "run_check os cmd dir = sys_do (os_run os cmd dir) (Ev_run cmd dir)"

definition sleep :: "'w os \<Rightarrow> rat \<Rightarrow> ('w manager, unit) prog" where
  "sleep os d s = (Inr (), s\<lparr>world := os_sleep os d (world s)\<rparr>, [Ev_sleep d])"

definition poll :: "'w os \<Rightarrow> popen \<Rightarrow> ('w manager, int option) prog" where
  "poll os p s = (case os_poll os p (world s) of (rc, w) \<Rightarrow> (Inr rc, s\<lparr>world := w\<rparr>, [Ev_poll p rc]))"

definition terminate :: "'w os \<Rightarrow> popen \<Rightarrow> ('w manager, unit) prog" where
  "terminate os p = sys_do (os_terminate os p) (Ev_terminate p)"

definition kill :: "'w os \<Rightarrow> popen \<Rightarrow> ('w manager, unit) prog" where
  "kill os p = sys_do (os_kill os p) (Ev_kill p)"

definition wait :: "'w os \<Rightarrow> popen \<Rightarrow> rat \<Rightarrow> ('w manager, unit) prog" where
  "wait os p timeout = sys_do (os_wait os p timeout) (Ev_wait p timeout)"

text \<open>
  \<open>with open(p, mode) as f: body\<close>: the file is closed when the block is left, by its end
  or by an exception.
\<close>

definition with_open ::
  "'w os \<Rightarrow> path \<Rightarrow> string \<Rightarrow> (fileobj \<Rightarrow> ('w manager, 'a) prog) \<Rightarrow> ('w manager, 'a) prog" where
  "with_open os p mode body =
     bnd (open_file os p mode)
       (\<lambda>f s. case body f s of (r, s', t) \<Rightarrow> (r, s', t @ [Ev_close f]))"

subsection \<open>\<open>__init__\<close>\<close>

text \<open>
  A new manager tracks no process. (The constructor also installs the signal handlers,
  which call \<open>cleanup\<close>; signal delivery is outside the model.)
\<close>

definition UIProcessManager_init :: "path \<Rightarrow> dict \<Rightarrow> 'w \<Rightarrow> 'w manager" where
  "UIProcessManager_init dir cfg w = \<lparr>ui_dir = dir, config = cfg, processes = [], world = w\<rparr>"

subsection \<open>\<open>start_websocket_server\<close>\<close>

text \<open>Lines 120 to 128: the environment of the backend.\<close>

definition backend_env :: "'w os \<Rightarrow> path \<Rightarrow> 'w \<Rightarrow> (string \<times> string) list" where
  "backend_env os dir w =
     (let env = os_environ os w;
          env = AList.update ''AGENT_CONFIG_PATH''
                  (joinpath (joinpath dir ''config'') ''agent-config.temp.json'') env;
          env = AList.update ''USER_WORKING_DIR'' (os_cwd os w) env;
          env = AList.update ''UI_TEMPLATE_DIR'' dir env
      in case map_of env ''PYTHONPATH'' of
           Some pp \<Rightarrow> AList.update ''PYTHONPATH'' (os_cwd os w @ '':'' @ pp) env
         | None \<Rightarrow> AList.update ''PYTHONPATH'' (os_cwd os w) env)"

text \<open>
  Lines 110 to 150. The process is appended to \<open>self.processes\<close> right after \<open>Popen\<close>
  (line 139), before the sleep of 2 and the poll (lines 142 to 145).
\<close>

definition start_websocket_server :: "'w os \<Rightarrow> ('w manager, popen) prog" where
  "start_websocket_server os =
     bnd (gets (\<lambda>s. s)) (\<lambda>self.
     bnd (lift (cfg_get2 (config self) ''server'' ''port'' (PInt 8000))) (\<lambda>ws_port.
     let websocket_script = joinpath (ui_dir self) ''websocket-server.py'' in
     bnd (path_exists os websocket_script) (\<lambda>found.
     if \<not> found then raise (FileNotFoundError (Msg_script_not_found websocket_script))
     else
     let env = backend_env os (ui_dir self) (world self) in
     bnd (open_file os (joinpath (os_cwd os (world self)) ''websocket.log'') ''a'') (\<lambda>log_file.
     bnd (gets (\<lambda>s. os_cwd os (world s))) (\<lambda>cwd.
     bnd (popen os \<lparr>l_args = [os_executable os (world self), websocket_script],
                     l_cwd = cwd, l_env = env, l_stdout = log_file\<rparr>) (\<lambda>process.
     bnd (modify (\<lambda>s. s\<lparr>processes := processes s @ [process]\<rparr>)) (\<lambda>_.
     bnd (sleep os 2) (\<lambda>_.
     bnd (poll os process) (\<lambda>rc.
     if rc \<noteq> None then raise (RuntimeError Msg_ws_start_failed)
     else
     bnd (echo (Msg_ws_started ws_port)) (\<lambda>_.
     bnd (echo Msg_see_ws_log) (\<lambda>_.
     ret process)))))))))))"

subsection \<open>\<open>start_frontend_server\<close>\<close>

text \<open>\<open>needle in hay\<close> for strings.\<close>

fun str_in :: "string \<Rightarrow> string \<Rightarrow> bool" where
  "str_in needle [] = (needle = [])"
| "str_in needle (c # cs) = (take (length needle) (c # cs) = needle \<or> str_in needle cs)"

text \<open>
  Lines 169 to 171: without \<open>dev_mode\<close> and without built static files, the method warns
  and goes on in development mode.
\<close>

definition fallback_dev_mode :: "'w os \<Rightarrow> path \<Rightarrow> bool \<Rightarrow> ('w manager, bool) prog" where
  "fallback_dev_mode os dist_path dev_mode =
     (if \<not> dev_mode then
        bnd (path_exists os dist_path) (\<lambda>built.
        if \<not> built then bnd (echo Msg_warn_no_static) (\<lambda>_. ret True) else ret dev_mode)
      else ret dev_mode)"

text \<open>Lines 174 to 177: \<open>npm install\<close> when \<open>node_modules\<close> is missing.\<close>

definition install_deps :: "'w os \<Rightarrow> path \<Rightarrow> ('w manager, unit) prog" where
  "install_deps os ui_path =
     bnd (path_exists os (joinpath ui_path ''node_modules'')) (\<lambda>installed.
     if \<not> installed then
       bnd (echo Msg_installing_deps) (\<lambda>_. run_check os [''npm'', ''install''] ui_path)
     else ret ())"

text \<open>Lines 188 to 194: the command.\<close>

definition frontend_cmd :: "bool \<Rightarrow> pyval \<Rightarrow> ('s, string list) prog" where
  "frontend_cmd dev_mode frontend_dev_port =
     (if dev_mode then
        bnd (echo (Msg_starting_dev frontend_dev_port)) (\<lambda>_. ret [''npm'', ''run'', ''dev''])
      else bnd (echo Msg_building) (\<lambda>_. ret [''npm'', ''run'', ''build'']))"

text \<open>
  Lines 212 to 219: when the process has exited, the log is read again and the failure is
  classified.
\<close>

definition check_frontend ::
  "'w os \<Rightarrow> path \<Rightarrow> pyval \<Rightarrow> popen \<Rightarrow> ('w manager, popen) prog" where
  "check_frontend os log_file_path frontend_dev_port process =
     bnd (poll os process) (\<lambda>rc.
     if rc \<noteq> None then
       with_open os log_file_path ''r'' (\<lambda>f.
       bnd (read_file os f) (\<lambda>error_log.
       if str_in ''EADDRINUSE'' error_log
       then raise (RuntimeError (Msg_port_in_use frontend_dev_port))
       else raise (RuntimeError Msg_frontend_failed_see_log)))
     else ret process)"

text \<open>
  Lines 196 to 219: the log file is opened, the process is started and appended to
  \<open>self.processes\<close> (line 206), and after the sleep of 3 its state is checked.
\<close>

definition launch_frontend ::
  "'w os \<Rightarrow> path \<Rightarrow> (string \<times> string) list \<Rightarrow> string list \<Rightarrow> path \<Rightarrow> pyval \<Rightarrow>
   ('w manager, popen) prog" where
  "launch_frontend os ui_path env cmd log_file_path frontend_dev_port =
     with_open os log_file_path ''a'' (\<lambda>log_file.
     bnd (popen os \<lparr>l_args = cmd, l_cwd = ui_path, l_env = env, l_stdout = log_file\<rparr>)
       (\<lambda>process.
     bnd (modify (\<lambda>s. s\<lparr>processes := processes s @ [process]\<rparr>)) (\<lambda>_.
     bnd (sleep os 3) (\<lambda>_.
     check_frontend os log_file_path frontend_dev_port process))))"

text \<open>Lines 173 to 222: what the method does once it has decided to start a process.\<close>

definition run_frontend ::
  "'w os \<Rightarrow> dict \<Rightarrow> path \<Rightarrow> pyval \<Rightarrow> bool \<Rightarrow> ('w manager, popen option) prog" where
  "run_frontend os cfg ui_path server_port dev_mode =
     bnd (install_deps os ui_path) (\<lambda>_.
     bnd (gets (\<lambda>s. os_environ os (world s))) (\<lambda>env.
     bnd (lift (cfg_get2 cfg ''frontend'' ''devPort'' (PInt 3000))) (\<lambda>frontend_dev_port.
     let env = AList.update ''FRONTEND_PORT'' (py_str os frontend_dev_port) env;
         env = AList.update ''VITE_WS_PORT'' (py_str os server_port) env in
     bnd (frontend_cmd dev_mode frontend_dev_port) (\<lambda>cmd.
     bnd (gets (\<lambda>s. joinpath (os_cwd os (world s)) ''frontend.log'')) (\<lambda>log_file_path.
     bnd (launch_frontend os ui_path env cmd log_file_path frontend_dev_port) (\<lambda>process.
     bnd (echo (Msg_ui_started frontend_dev_port)) (\<lambda>_.
     ret (Some process))))))))"

text \<open>Lines 152 to 222.\<close>

definition start_frontend_server :: "'w os \<Rightarrow> bool \<Rightarrow> ('w manager, popen option) prog" where
  "start_frontend_server os dev_mode =
     bnd (gets (\<lambda>s. s)) (\<lambda>self.
     bnd (lift (cfg_get2 (config self) ''server'' ''port'' (PInt 8000))) (\<lambda>server_port.
     let ui_path = joinpath (ui_dir self) ''frontend'' in
     bnd (path_exists os ui_path) (\<lambda>found.
     if \<not> found then raise (FileNotFoundError (Msg_ui_dir_not_found ui_path))
     else
     let dist_path = joinpath ui_path ''ui-static'' in
     bnd (path_exists os dist_path) (\<lambda>built.
     if built \<and> \<not> dev_mode then
       bnd (echo (Msg_ui_started server_port)) (\<lambda>_.
       bnd (echo Msg_static_mode) (\<lambda>_.
       ret None))
     else
     bnd (fallback_dev_mode os dist_path dev_mode) (\<lambda>dev_mode.
     run_frontend os (config self) ui_path server_port dev_mode)))))"

subsection \<open>\<open>cleanup\<close>\<close>

text \<open>Lines 241 to 246 and 252 to 258: the bodies of the two loops.\<close>

definition terminate_one :: "'w os \<Rightarrow> popen \<Rightarrow> ('w manager, unit) prog" where
  "terminate_one os process =
     bnd (poll os process) (\<lambda>rc.
     if rc = None then try_pass (terminate os process) else ret ())"

definition kill_one :: "'w os \<Rightarrow> popen \<Rightarrow> ('w manager, unit) prog" where
  "kill_one os process =
     bnd (poll os process) (\<lambda>rc.
     if rc = None
     then try_pass (bnd (kill os process) (\<lambda>_. wait os process (1 / 2)))
     else ret ())"

text \<open>Lines 235 to 260.\<close>

definition cleanup :: "'w os \<Rightarrow> ('w manager, unit) prog" where
  "cleanup os =
     bnd (gets processes) (\<lambda>ps.
     if ps = [] then ret ()
     else
     bnd (for_each (terminate_one os) ps) (\<lambda>_.
     bnd (sleep os (1 / 2)) (\<lambda>_.
     bnd (gets processes) (\<lambda>ps.
     bnd (for_each (kill_one os) ps) (\<lambda>_.
     modify (\<lambda>s. s\<lparr>processes := []\<rparr>))))))"

section \<open>The shape of a shutdown\<close>

text \<open>
  The events of the first loop of \<open>cleanup\<close> over the tracked processes \<open>ps\<close>: each
  process is polled in turn; one that has exited gets nothing more, one that is running is
  sent \<open>terminate\<close>, whatever that call answers.
\<close>

fun terminate_phase :: "popen list \<Rightarrow> event list \<Rightarrow> bool" where
  "terminate_phase [] t = (t = [])"
| "terminate_phase (p # ps) t =
     (case t of
        Ev_poll q (Some rc) # t1 \<Rightarrow> q = p \<and> terminate_phase ps t1
      | Ev_poll q None # t1 \<Rightarrow>
          (case t1 of
             Ev_terminate q1 x # t2 \<Rightarrow> q = p \<and> q1 = p \<and> terminate_phase ps t2
           | _ \<Rightarrow> False)
      | _ \<Rightarrow> False)"

text \<open>
  The events of the second loop: each process is polled in turn; one that is still running
  is sent \<open>kill\<close> and, when \<open>kill\<close> did not raise, waited for with a timeout of a half,
  whatever the wait answers.
\<close>

fun kill_phase :: "popen list \<Rightarrow> event list \<Rightarrow> bool" where
  "kill_phase [] t = (t = [])"
| "kill_phase (p # ps) t =
     (case t of
        Ev_poll q (Some rc) # t1 \<Rightarrow> q = p \<and> kill_phase ps t1
      | Ev_poll q None # t1 \<Rightarrow>
          (case t1 of
             Ev_kill q1 (Some e) # t2 \<Rightarrow> q = p \<and> q1 = p \<and> kill_phase ps t2
           | Ev_kill q1 None # t2 \<Rightarrow>
               (case t2 of
                  Ev_wait q2 d x # t3 \<Rightarrow>
                    q = p \<and> q1 = p \<and> q2 = p \<and> d = 1 / 2 \<and> kill_phase ps t3
                | _ \<Rightarrow> False)
           | _ \<Rightarrow> False)
      | _ \<Rightarrow> False)"

section \<open>The shape of a failed start of the frontend\<close>

text \<open>
  What lines 214 to 219 leave in the trace after a poll that found the child exited, with
  the exception \<open>err\<close> they end in: the log at \<open>lp\<close> is opened for reading; when that fails,
  the exception of \<open>open\<close> is the one raised; when the read fails, the exception of \<open>read\<close>
  is; when the text has been read, the exception is the \<open>RuntimeError\<close> that names the port
  if \<open>EADDRINUSE\<close> is in the text and the one that points to the log if it is not.
\<close>

definition failure_tail :: "path \<Rightarrow> pyval \<Rightarrow> error \<Rightarrow> event list \<Rightarrow> bool" where
  "failure_tail lp port err tail \<longleftrightarrow>
     tail = [Ev_open lp ''r'' (Inl err)] \<or>
     (\<exists>f. tail = [Ev_open lp ''r'' (Inr f), Ev_read f (Inl err), Ev_close f]) \<or>
     (\<exists>f error_log.
        tail = [Ev_open lp ''r'' (Inr f), Ev_read f (Inr error_log), Ev_close f] \<and>
        str_in ''EADDRINUSE'' error_log \<and> err = RuntimeError (Msg_port_in_use port)) \<or>
     (\<exists>f error_log.
        tail = [Ev_open lp ''r'' (Inr f), Ev_read f (Inr error_log), Ev_close f] \<and>
        \<not> str_in ''EADDRINUSE'' error_log \<and> err = RuntimeError Msg_frontend_failed_see_log)"


section \<open>A small operating system to run the model on\<close>

text \<open>
  The world is the list of the running children. A path exists when it is in \<open>paths\<close>. The
  handle of an open file is the length of its path, which tells the files of these runs
  apart; the file \<open>/work/frontend.log\<close> reads as \<open>logtext\<close>, every other file is empty. A
  child started while \<open>crash\<close> holds has exited by the time it is polled; the first child
  gets the handle 10 and the next ones count up; a child with an odd handle ignores
  \<open>terminate\<close>; \<open>kill\<close> ends any child; a wait on a running child times out.
\<close>

fun decimal :: "nat \<Rightarrow> string" where
  "decimal n =
     (if n < 10 then [char_of (48 + n)] else decimal (n div 10) @ [char_of (48 + n mod 10)])"

declare decimal.simps [simp del]

definition sim_os :: "path list \<Rightarrow> bool \<Rightarrow> string \<Rightarrow> (nat list) os" where
  "sim_os paths crash logtext =
     \<lparr>os_cwd = (\<lambda>w. ''/work''),
      os_environ = (\<lambda>w. [(''PATH'', ''/usr/bin'')]),
      os_executable = (\<lambda>w. ''/usr/bin/python3''),
      os_exists = (\<lambda>p w. (p \<in> set paths, w)),
      os_open = (\<lambda>p mode w. (Inr (length p), w)),
      os_read =
        (\<lambda>f w. (Inr (if f = length ''/work/frontend.log'' then logtext else []), w)),
      os_popen = (\<lambda>l w. (Inr (10 + length w), if crash then w else w @ [10 + length w])),
      os_run = (\<lambda>cmd dir w. (None, w)),
      os_sleep = (\<lambda>d w. w),
      os_poll = (\<lambda>p w. (if p \<in> set w then None else Some 1, w)),
      os_terminate = (\<lambda>p w. (None, if even p then removeAll p w else w)),
      os_kill = (\<lambda>p w. (None, removeAll p w)),
      os_wait = (\<lambda>p d w. (if p \<in> set w then Some TimeoutExpired else None, w)),
      py_str = (\<lambda>v. case v of PStr s \<Rightarrow> s | PInt n \<Rightarrow> decimal (nat n) | _ \<Rightarrow> [])\<rparr>"


section \<open>Properties of \<open>_deep_merge\<close>\<close>

lemma deep_merge_Cons:
  "deep_merge base ((key, v) # rest) = deep_merge (AList.update key (merged_value base key v) base) rest"
  by (cases v) (auto simp: merged_value_def split: option.splits pyval.splits)

lemma deep_merge_other:
  "k \<notin> fst ` set upd \<Longrightarrow> map_of (deep_merge base upd) k = map_of base k"
proof (induction upd arbitrary: base)
  case Nil
  then show ?case by simp
next
  case (Cons p upd)
  obtain key v where p: "p = (key, v)" by (cases p)
  from Cons.prems p have "k \<noteq> key" and "k \<notin> fst ` set upd" by auto
  then show ?case
    by (simp add: p deep_merge_Cons Cons.IH update_conv' del: deep_merge.simps)
qed

lemma deep_merge_keys:
  "fst ` set base \<subseteq> fst ` set (deep_merge base upd)"
proof (induction upd arbitrary: base)
  case Nil
  then show ?case by simp
next
  case (Cons p upd)
  obtain key v where p: "p = (key, v)" by (cases p)
  have "fst ` set base \<subseteq> fst ` set (AList.update key (merged_value base key v) base)"
    by (auto simp: dom_update)
  also have "\<dots> \<subseteq> fst ` set (deep_merge (AList.update key (merged_value base key v) base) upd)"
    by (rule Cons.IH)
  finally show ?case
    by (simp add: p deep_merge_Cons del: deep_merge.simps)
qed

lemma deep_merge_present:
  "distinct (map fst upd) \<Longrightarrow> map_of upd k = Some v \<Longrightarrow>
   map_of (deep_merge base upd) k = Some (merged_value base k v)"
proof (induction upd arbitrary: base)
  case Nil
  then show ?case by simp
next
  case (Cons p upd)
  obtain key w where p: "p = (key, w)" by (cases p)
  show ?case
  proof (cases "k = key")
    case True
    with Cons.prems p have "w = v" and "k \<notin> fst ` set upd" by auto
    then show ?thesis
      by (simp add: p True deep_merge_Cons deep_merge_other update_conv' del: deep_merge.simps)
  next
    case False
    with Cons.prems p have d: "distinct (map fst upd)" and m: "map_of upd k = Some v" by auto
    have "merged_value (AList.update key (merged_value base key w) base) k v = merged_value base k v"
      using False by (simp add: merged_value_def update_conv')
    then show ?thesis
      using Cons.IH [OF d m] by (simp add: p deep_merge_Cons del: deep_merge.simps)
  qed
qed

section \<open>Running the methods step by step\<close>

lemmas prog_defs = ret_def raise_def bnd_def lift_def gets_def modify_def try_pass_def echo_def
  sys_try_def sys_do_def path_exists_def open_file_def read_file_def popen_def run_check_def
  sleep_def poll_def terminate_def kill_def wait_def with_open_def

lemma spawned_append: "spawned (t @ u) = spawned t @ spawned u"
  by (induction t rule: spawned.induct) simp_all

lemma fallback_dev_mode_result:
  "fallback_dev_mode os d dev s =
     (if dev then (Inr True, s, [])
      else (case os_exists os d (world s) of
              (b, w) \<Rightarrow>
                (Inr (\<not> b), s\<lparr>world := w\<rparr>,
                 Ev_exists d b # (if b then [] else [Ev_echo Msg_warn_no_static]))))"
  by (simp add: fallback_dev_mode_def prog_defs split: prod.splits)

lemma install_deps_result:
  assumes "install_deps os u s = (r, s', t)"
  shows "processes s' = processes s \<and>
         (t = [Ev_exists (joinpath u ''node_modules'') True] \<or>
          (\<exists>x. t = [Ev_exists (joinpath u ''node_modules'') False, Ev_echo Msg_installing_deps,
                     Ev_run [''npm'', ''install''] u x]))"
  using assms
  by (auto simp: install_deps_def prog_defs split: prod.splits option.splits if_splits)

lemma frontend_cmd_result:
  "frontend_cmd dev port s =
     (Inr (if dev then [''npm'', ''run'', ''dev''] else [''npm'', ''run'', ''build'']), s,
      [Ev_echo (if dev then Msg_starting_dev port else Msg_building)])"
  by (simp add: frontend_cmd_def prog_defs)

lemma failure_tail_quiet:
  "failure_tail lp port err tail \<Longrightarrow> spawned tail = [] \<and> Ev_poll q x \<notin> set tail"
  by (auto simp: failure_tail_def)

lemma check_frontend_result:
  assumes "check_frontend os lp port p s = (r, s', t)"
  shows "processes s' = processes s \<and>
         ((t = [Ev_poll p None] \<and> r = Inr p) \<or>
          (\<exists>rc tail err. t = Ev_poll p (Some rc) # tail \<and> r = Inl err \<and>
             failure_tail lp port err tail))"
  using assms
  by (auto simp: check_frontend_def failure_tail_def prog_defs
           split: prod.splits sum.splits if_splits option.splits)

lemma launch_frontend_cases:
  assumes "launch_frontend os u env cmd lp port s = (r, s', t)"
  obtains
    (open_failed) e where "t = [Ev_open lp ''a'' (Inl e)]" and "r = Inl e"
      and "processes s' = processes s"
  | (popen_failed) lf e where
      "t = [Ev_open lp ''a'' (Inr lf),
            Ev_popen \<lparr>l_args = cmd, l_cwd = u, l_env = env, l_stdout = lf\<rparr> (Inl e),
            Ev_close lf]"
      and "r = Inl e" and "processes s' = processes s"
  | (alive) lf p where
      "t = [Ev_open lp ''a'' (Inr lf),
            Ev_popen \<lparr>l_args = cmd, l_cwd = u, l_env = env, l_stdout = lf\<rparr> (Inr p),
            Ev_sleep 3, Ev_poll p None, Ev_close lf]"
      and "r = Inr p" and "processes s' = processes s @ [p]"
  | (exited) lf p rc tail err where
      "t = [Ev_open lp ''a'' (Inr lf),
            Ev_popen \<lparr>l_args = cmd, l_cwd = u, l_env = env, l_stdout = lf\<rparr> (Inr p),
            Ev_sleep 3, Ev_poll p (Some rc)] @ tail @ [Ev_close lf]"
      and "r = Inl err" and "failure_tail lp port err tail"
      and "processes s' = processes s @ [p]"
proof -
  from assms consider
    (a) e w where "os_open os lp ''a'' (world s) = (Inl e, w)"
      "r = Inl e" "s' = s\<lparr>world := w\<rparr>" "t = [Ev_open lp ''a'' (Inl e)]"
  | (b) lf w e w1 where "os_open os lp ''a'' (world s) = (Inr lf, w)"
      "os_popen os \<lparr>l_args = cmd, l_cwd = u, l_env = env, l_stdout = lf\<rparr> w = (Inl e, w1)"
      "r = Inl e" "s' = s\<lparr>world := w1\<rparr>"
      "t = [Ev_open lp ''a'' (Inr lf),
            Ev_popen \<lparr>l_args = cmd, l_cwd = u, l_env = env, l_stdout = lf\<rparr> (Inl e),
            Ev_close lf]"
  | (c) lf w p w1 t2 where "os_open os lp ''a'' (world s) = (Inr lf, w)"
      "os_popen os \<lparr>l_args = cmd, l_cwd = u, l_env = env, l_stdout = lf\<rparr> w = (Inr p, w1)"
      "check_frontend os lp port p
         (s\<lparr>processes := processes s @ [p], world := os_sleep os 3 w1\<rparr>) = (r, s', t2)"
      "t = [Ev_open lp ''a'' (Inr lf),
            Ev_popen \<lparr>l_args = cmd, l_cwd = u, l_env = env, l_stdout = lf\<rparr> (Inr p),
            Ev_sleep 3] @ t2 @ [Ev_close lf]"
    by (auto simp: launch_frontend_def with_open_def open_file_def popen_def sys_try_def
          bnd_def modify_def sleep_def split: prod.splits sum.splits)
  then show thesis
  proof cases
    case a
    then show thesis by (intro open_failed [of e]) simp_all
  next
    case b
    then show thesis by (intro popen_failed [of lf e]) simp_all
  next
    case c
    from check_frontend_result [OF c(3)]
    have ps: "processes s' = processes s @ [p]" and
      alt: "(t2 = [Ev_poll p None] \<and> r = Inr p) \<or>
            (\<exists>rc tail err. t2 = Ev_poll p (Some rc) # tail \<and> r = Inl err \<and>
               failure_tail lp port err tail)"
      by simp_all
    from alt show thesis
    proof
      assume "t2 = [Ev_poll p None] \<and> r = Inr p"
      with c(4) ps show thesis by (intro alive [of lf p]) simp_all
    next
      assume "\<exists>rc tail err. t2 = Ev_poll p (Some rc) # tail \<and> r = Inl err \<and>
               failure_tail lp port err tail"
      then obtain rc tail err where "t2 = Ev_poll p (Some rc) # tail" "r = Inl err"
        "failure_tail lp port err tail" by blast
      with c(4) ps show thesis by (intro exited [of lf p rc tail err]) simp_all
    qed
  qed
qed

lemma launch_spawned:
  assumes "launch_frontend os u env cmd lp port s = (r, s', t)"
  shows "spawned t = [] \<or> spawned t = [cmd]"
  using assms
  by (cases rule: launch_frontend_cases) (auto simp: spawned_append dest: failure_tail_quiet)

lemma launch_ok:
  assumes "launch_frontend os u env cmd lp port s = (Inr p, s', t)"
  shows "processes s' = processes s @ [p] \<and> spawned t = [cmd]"
  using assms by (cases rule: launch_frontend_cases) auto


lemma install_spawned: "install_deps os u s = (r, s', t) \<Longrightarrow> spawned t = []"
  by (drule install_deps_result) auto

lemma install_processes: "install_deps os u s = (r, s', t) \<Longrightarrow> processes s' = processes s"
  by (drule install_deps_result) auto


lemmas run_defs = run_frontend_def bnd_def gets_def lift_def echo_def ret_def
  frontend_cmd_result Let_def

lemma run_frontend_cases:
  assumes "run_frontend os cfg u sp dev s = (r, s', t)"
  obtains
    (install) e where "install_deps os u s = (Inl e, s', t)" and "r = Inl e"
  | (config) s1 e where "install_deps os u s = (Inr (), s1, t)"
      and "cfg_get2 cfg ''frontend'' ''devPort'' (PInt 3000) = Inl e"
      and "r = Inl e" and "s' = s1"
  | (launch) s1 t1 port env e t2 where "install_deps os u s = (Inr (), s1, t1)"
      and "cfg_get2 cfg ''frontend'' ''devPort'' (PInt 3000) = Inr port"
      and "launch_frontend os u env
             (if dev then [''npm'', ''run'', ''dev''] else [''npm'', ''run'', ''build''])
             (joinpath (os_cwd os (world s1)) ''frontend.log'') port s1 = (Inl e, s', t2)"
      and "r = Inl e"
      and "t = t1 @ Ev_echo (if dev then Msg_starting_dev port else Msg_building) # t2"
  | (started) s1 t1 port env p t2 where "install_deps os u s = (Inr (), s1, t1)"
      and "cfg_get2 cfg ''frontend'' ''devPort'' (PInt 3000) = Inr port"
      and "launch_frontend os u env
             (if dev then [''npm'', ''run'', ''dev''] else [''npm'', ''run'', ''build''])
             (joinpath (os_cwd os (world s1)) ''frontend.log'') port s1 = (Inr p, s', t2)"
      and "r = Inr (Some p)"
      and "t = t1 @ Ev_echo (if dev then Msg_starting_dev port else Msg_building) # t2
                 @ [Ev_echo (Msg_ui_started port)]"
  using assms
  by (auto simp: run_defs split: prod.splits sum.splits)

lemma run_spawned:
  assumes "run_frontend os cfg u sp dev s = (r, s', t)"
  shows "spawned t = [] \<or>
         spawned t = [if dev then [''npm'', ''run'', ''dev''] else [''npm'', ''run'', ''build'']]"
  using assms
proof (cases rule: run_frontend_cases)
  case (install e)
  then show ?thesis by (simp add: install_spawned)
next
  case (config s1 e)
  then show ?thesis by (simp add: install_spawned)
next
  case (launch s1 t1 port env e t2)
  then show ?thesis
    using install_spawned [OF launch(1)] launch_spawned [OF launch(3)]
    by (auto simp: spawned_append)
next
  case (started s1 t1 port env p t2)
  then show ?thesis
    using install_spawned [OF started(1)] launch_ok [OF started(3)]
    by (auto simp: spawned_append)
qed

lemma run_ok:
  assumes "run_frontend os cfg u sp dev s = (Inr (Some p), s', t)"
  shows "processes s' = processes s @ [p] \<and>
         spawned t = [if dev then [''npm'', ''run'', ''dev''] else [''npm'', ''run'', ''build'']]"
  using assms
proof (cases rule: run_frontend_cases)
  case (started s1 t1 port env q t2)
  then show ?thesis
    using install_spawned [OF started(1)] install_processes [OF started(1)]
      launch_ok [OF started(3)]
    by (auto simp: spawned_append)
qed simp_all

lemma run_not_none:
  assumes "run_frontend os cfg u sp dev s = (r, s', t)"
  shows "r \<noteq> Inr None"
  using assms by (cases rule: run_frontend_cases) auto


lemma start_frontend_server_unfold:
  "start_frontend_server os dev s =
     (case cfg_get2 (config s) ''server'' ''port'' (PInt 8000) of
        Inl e \<Rightarrow> (Inl e, s, [])
      | Inr port \<Rightarrow>
          (case os_exists os (joinpath (ui_dir s) ''frontend'') (world s) of
             (found, w1) \<Rightarrow>
               if \<not> found
               then (Inl (FileNotFoundError
                            (Msg_ui_dir_not_found (joinpath (ui_dir s) ''frontend''))),
                     s\<lparr>world := w1\<rparr>, [Ev_exists (joinpath (ui_dir s) ''frontend'') False])
               else
                 (case os_exists os (joinpath (joinpath (ui_dir s) ''frontend'') ''ui-static'') w1 of
                    (built, w2) \<Rightarrow>
                      if built \<and> \<not> dev
                      then (Inr None, s\<lparr>world := w2\<rparr>,
                            [Ev_exists (joinpath (ui_dir s) ''frontend'') True,
                             Ev_exists (joinpath (joinpath (ui_dir s) ''frontend'') ''ui-static'')
                               True,
                             Ev_echo (Msg_ui_started port), Ev_echo Msg_static_mode])
                      else if dev
                      then (case run_frontend os (config s) (joinpath (ui_dir s) ''frontend'')
                                   port True (s\<lparr>world := w2\<rparr>) of
                              (r, s', t2) \<Rightarrow>
                                (r, s',
                                 [Ev_exists (joinpath (ui_dir s) ''frontend'') True,
                                  Ev_exists
                                    (joinpath (joinpath (ui_dir s) ''frontend'') ''ui-static'')
                                    built] @ t2))
                      else
                        (case os_exists os
                                (joinpath (joinpath (ui_dir s) ''frontend'') ''ui-static'') w2 of
                           (again, w3) \<Rightarrow>
                             (case run_frontend os (config s) (joinpath (ui_dir s) ''frontend'')
                                     port (\<not> again) (s\<lparr>world := w3\<rparr>) of
                                (r, s', t2) \<Rightarrow>
                                  (r, s',
                                   [Ev_exists (joinpath (ui_dir s) ''frontend'') True,
                                    Ev_exists
                                      (joinpath (joinpath (ui_dir s) ''frontend'') ''ui-static'')
                                      False,
                                    Ev_exists
                                      (joinpath (joinpath (ui_dir s) ''frontend'') ''ui-static'')
                                      again] @
                                   (if again then [] else [Ev_echo Msg_warn_no_static]) @ t2))))))"
  by (auto simp: start_frontend_server_def bnd_def gets_def lift_def echo_def ret_def raise_def
        path_exists_def fallback_dev_mode_result Let_def
      split: prod.splits sum.splits)

lemma start_frontend_cases:
  assumes "start_frontend_server os dev s = (r, s', t)"
      and "ui = joinpath (ui_dir s) ''frontend''" and "sdir = joinpath ui ''ui-static''"
  obtains
    (config) e where "cfg_get2 (config s) ''server'' ''port'' (PInt 8000) = Inl e"
      and "r = Inl e" and "s' = s" and "t = []"
  | (missing) "r = Inl (FileNotFoundError (Msg_ui_dir_not_found ui))"
      and "processes s' = processes s" and "t = [Ev_exists ui False]"
  | (static) port where "cfg_get2 (config s) ''server'' ''port'' (PInt 8000) = Inr port"
      and "\<not> dev" and "r = Inr None" and "processes s' = processes s"
      and "t = [Ev_exists ui True, Ev_exists sdir True,
                Ev_echo (Msg_ui_started port), Ev_echo Msg_static_mode]"
  | (dev) port built s2 t2 where "dev"
      and "run_frontend os (config s) ui port True s2 = (r, s', t2)"
      and "processes s2 = processes s"
      and "t = [Ev_exists ui True, Ev_exists sdir built] @ t2"
  | (fallback) port s2 t2 where "\<not> dev"
      and "run_frontend os (config s) ui port True s2 = (r, s', t2)"
      and "processes s2 = processes s"
      and "t = [Ev_exists ui True, Ev_exists sdir False, Ev_exists sdir False,
                Ev_echo Msg_warn_no_static] @ t2"
  | (build) port s2 t2 where "\<not> dev"
      and "run_frontend os (config s) ui port False s2 = (r, s', t2)"
      and "processes s2 = processes s"
      and "t = [Ev_exists ui True, Ev_exists sdir False, Ev_exists sdir True] @ t2"
proof (cases "cfg_get2 (config s) ''server'' ''port'' (PInt 8000)")
  case (Inl e)
  with assms show ?thesis by (intro config [of e]) (auto simp: start_frontend_server_unfold)
next
  case (Inr port)
  obtain found w1 where e1: "os_exists os ui (world s) = (found, w1)"
    by (cases "os_exists os ui (world s)")
  show ?thesis
  proof (cases found)
    case False
    with assms Inr e1 show ?thesis
      by (intro missing) (auto simp: start_frontend_server_unfold)
  next
    case True
    obtain built w2 where e2: "os_exists os sdir w1 = (built, w2)"
      by (cases "os_exists os sdir w1")
    show ?thesis
    proof (cases "built \<and> \<not> dev")
      case True
      with assms Inr e1 e2 \<open>found\<close> show ?thesis
        by (intro static [of port]) (auto simp: start_frontend_server_unfold)
    next
      case False
      note nb = this
      show ?thesis
      proof (cases dev)
        case True
        obtain r2 s3 t2 where
          run2: "run_frontend os (config s) ui port True (s\<lparr>world := w2\<rparr>) = (r2, s3, t2)"
          by (cases "run_frontend os (config s) ui port True (s\<lparr>world := w2\<rparr>)")
        with assms Inr e1 e2 \<open>found\<close> True
        have "r = r2" "s' = s3" "t = [Ev_exists ui True, Ev_exists sdir built] @ t2"
          by (auto simp: start_frontend_server_unfold)
        with run2 True show ?thesis
          by (intro dev [of port "s\<lparr>world := w2\<rparr>" t2 built]) auto
      next
        case False
        with nb have "\<not> built" by simp
        obtain again w3 where e3: "os_exists os sdir w2 = (again, w3)"
          by (cases "os_exists os sdir w2")
        obtain r2 s3 t2 where
          run2: "run_frontend os (config s) ui port (\<not> again) (s\<lparr>world := w3\<rparr>) = (r2, s3, t2)"
          by (cases "run_frontend os (config s) ui port (\<not> again) (s\<lparr>world := w3\<rparr>)")
        with assms Inr e1 e2 e3 \<open>found\<close> False \<open>\<not> built\<close>
        have eq: "r = r2" "s' = s3"
          "t = [Ev_exists ui True, Ev_exists sdir False, Ev_exists sdir again] @
               (if again then [] else [Ev_echo Msg_warn_no_static]) @ t2"
          by (auto simp: start_frontend_server_unfold)
        show ?thesis
        proof (cases again)
          case True
          with eq run2 False show ?thesis
            by (intro build [of port "s\<lparr>world := w3\<rparr>" t2]) auto
        next
          case False
          with eq run2 \<open>\<not> dev\<close> show ?thesis
            by (intro fallback [of port "s\<lparr>world := w3\<rparr>" t2]) auto
        qed
      qed
    qed
  qed
qed

lemma start_frontend_server_ok:
  assumes "start_frontend_server os dev_mode s = (Inr (Some f), s', t)"
  shows "processes s' = processes s @ [f]"
  using assms refl refl
proof (cases rule: start_frontend_cases)
  case (dev port built s2 t2)
  from run_ok [OF dev(2)] dev(3) show ?thesis by simp
next
  case (fallback port s2 t2)
  from run_ok [OF fallback(2)] fallback(3) show ?thesis by simp
next
  case (build port s2 t2)
  from run_ok [OF build(2)] build(3) show ?thesis by simp
qed simp_all

section \<open>The two loops of \<open>cleanup\<close>\<close>

lemma terminate_one_result:
  assumes "terminate_one os p s = (r, s', t)"
  shows "r = Inr () \<and> processes s' = processes s \<and>
         ((\<exists>rc. t = [Ev_poll p (Some rc)]) \<or> (\<exists>x. t = [Ev_poll p None, Ev_terminate p x]))"
  using assms
  by (auto simp: terminate_one_def prog_defs split: prod.splits option.splits if_splits)

lemma kill_one_unfold:
  "kill_one os p s =
     (case os_poll os p (world s) of
        (Some rc, w) \<Rightarrow> (Inr (), s\<lparr>world := w\<rparr>, [Ev_poll p (Some rc)])
      | (None, w) \<Rightarrow>
          (case os_kill os p w of
             (Some e, w1) \<Rightarrow> (Inr (), s\<lparr>world := w1\<rparr>, [Ev_poll p None, Ev_kill p (Some e)])
           | (None, w1) \<Rightarrow>
               (case os_wait os p (1 / 2) w1 of
                  (x, w2) \<Rightarrow>
                    (Inr (), s\<lparr>world := w2\<rparr>,
                     [Ev_poll p None, Ev_kill p None, Ev_wait p (1 / 2) x]))))"
  by (simp add: kill_one_def prog_defs split: prod.splits option.splits)

lemma kill_one_result:
  assumes "kill_one os p s = (r, s', t)"
  shows "r = Inr () \<and> processes s' = processes s \<and>
         ((\<exists>rc. t = [Ev_poll p (Some rc)]) \<or>
          (\<exists>e. t = [Ev_poll p None, Ev_kill p (Some e)]) \<or>
          (\<exists>x. t = [Ev_poll p None, Ev_kill p None, Ev_wait p (1 / 2) x]))"
  using assms unfolding kill_one_unfold
  by (auto split: prod.splits option.splits)

lemma for_each_terminate:
  "for_each (terminate_one os) ps s = (r, s', t) \<Longrightarrow>
   r = Inr () \<and> processes s' = processes s \<and> terminate_phase ps t"
proof (induction ps arbitrary: s r s' t)
  case Nil
  then show ?case by (simp add: ret_def)
next
  case (Cons p ps)
  obtain r1 s1 t1 where one: "terminate_one os p s = (r1, s1, t1)"
    by (cases "terminate_one os p s")
  obtain r2 s2 t2 where rest: "for_each (terminate_one os) ps s1 = (r2, s2, t2)"
    by (cases "for_each (terminate_one os) ps s1")
  from terminate_one_result [OF one] have r1: "r1 = Inr ()" and p1: "processes s1 = processes s"
    and t1: "(\<exists>rc. t1 = [Ev_poll p (Some rc)]) \<or> (\<exists>x. t1 = [Ev_poll p None, Ev_terminate p x])"
    by auto
  from Cons.prems one rest r1 have eq: "r = r2" "s' = s2" "t = t1 @ t2"
    by (simp_all add: bnd_def)
  from Cons.IH [OF rest] have "r2 = Inr ()" "processes s2 = processes s1" "terminate_phase ps t2"
    by auto
  with eq p1 t1 show ?case by auto
qed

lemma for_each_kill:
  "for_each (kill_one os) ps s = (r, s', t) \<Longrightarrow>
   r = Inr () \<and> processes s' = processes s \<and> kill_phase ps t"
proof (induction ps arbitrary: s r s' t)
  case Nil
  then show ?case by (simp add: ret_def)
next
  case (Cons p ps)
  obtain r1 s1 t1 where one: "kill_one os p s = (r1, s1, t1)"
    by (cases "kill_one os p s")
  obtain r2 s2 t2 where rest: "for_each (kill_one os) ps s1 = (r2, s2, t2)"
    by (cases "for_each (kill_one os) ps s1")
  from kill_one_result [OF one] have r1: "r1 = Inr ()" and p1: "processes s1 = processes s"
    and t1: "(\<exists>rc. t1 = [Ev_poll p (Some rc)]) \<or>
          (\<exists>e. t1 = [Ev_poll p None, Ev_kill p (Some e)]) \<or>
          (\<exists>x. t1 = [Ev_poll p None, Ev_kill p None, Ev_wait p (1 / 2) x])"
    by auto
  from Cons.prems one rest r1 have eq: "r = r2" "s' = s2" "t = t1 @ t2"
    by (simp_all add: bnd_def)
  from Cons.IH [OF rest] have "r2 = Inr ()" "processes s2 = processes s1" "kill_phase ps t2"
    by auto
  with eq p1 t1 show ?case by auto
qed

lemma cleanup_empty: "processes s = [] \<Longrightarrow> cleanup os s = (Inr (), s, [])"
  by (simp add: cleanup_def bnd_def gets_def ret_def)

lemma cleanup_nonempty:
  assumes "processes s \<noteq> []" and "cleanup os s = (r, s', t)"
  shows "r = Inr () \<and> processes s' = [] \<and>
         (\<exists>t1 t2. t = t1 @ [Ev_sleep (1 / 2)] @ t2 \<and>
            terminate_phase (processes s) t1 \<and> kill_phase (processes s) t2)"
proof -
  obtain r1 s1 t1 where l1: "for_each (terminate_one os) (processes s) s = (r1, s1, t1)"
    by (cases "for_each (terminate_one os) (processes s) s")
  from for_each_terminate [OF l1]
  have r1: "r1 = Inr ()" and p1: "processes s1 = processes s" and ph1: "terminate_phase (processes s) t1"
    by auto
  define s2 where "s2 = s1\<lparr>world := os_sleep os (1 / 2) (world s1)\<rparr>"
  obtain r3 s3 t3 where l2: "for_each (kill_one os) (processes s) s2 = (r3, s3, t3)"
    by (cases "for_each (kill_one os) (processes s) s2")
  from for_each_kill [OF l2]
  have r3: "r3 = Inr ()" and ph2: "kill_phase (processes s) t3" by auto
  from assms l1 r1 p1 l2 r3 have "r = Inr ()" "s' = s3\<lparr>processes := []\<rparr>"
    "t = t1 @ [Ev_sleep (1 / 2)] @ t3"
    by (simp_all add: cleanup_def bnd_def gets_def sleep_def modify_def s2_def)
  with ph1 ph2 show ?thesis by auto
qed

section \<open>The configuration: claims\<close>

text \<open>
  Claim C2. For a default document \<open>base\<close> and an override document \<open>upd\<close> (a dictionary:
  its keys are distinct), \<open>_deep_merge\<close> keeps every key of \<open>base\<close> that \<open>upd\<close> does not have
  with its value; a key that holds a dictionary on both sides holds the recursive merge of
  the two; a key that \<open>upd\<close> gives a value that is not a dictionary (a list included) holds
  that value, and so does a key whose value in \<open>base\<close> is missing or not a dictionary;
  every key of \<open>base\<close> is a key of the result.
\<close>

theorem deep_merge_spec:
  assumes "distinct (map fst upd)"
  shows "(k \<notin> fst ` set upd \<longrightarrow> map_of (deep_merge base upd) k = map_of base k) \<and>
         (map_of base k = Some (PDict b) \<and> map_of upd k = Some (PDict u) \<longrightarrow>
            map_of (deep_merge base upd) k = Some (PDict (deep_merge b u))) \<and>
         (map_of upd k = Some v \<and> \<not> is_dict v \<longrightarrow> map_of (deep_merge base upd) k = Some v) \<and>
         (map_of upd k = Some v \<and> (\<forall>d. map_of base k \<noteq> Some (PDict d)) \<longrightarrow>
            map_of (deep_merge base upd) k = Some v) \<and>
         fst ` set base \<subseteq> fst ` set (deep_merge base upd)"
proof (intro conjI impI)
  assume "k \<notin> fst ` set upd"
  then show "map_of (deep_merge base upd) k = map_of base k" by (rule deep_merge_other)
next
  assume "map_of base k = Some (PDict b) \<and> map_of upd k = Some (PDict u)"
  with deep_merge_present [OF assms, of k "PDict u" base]
  show "map_of (deep_merge base upd) k = Some (PDict (deep_merge b u))"
    by (simp add: merged_value_def)
next
  assume "map_of upd k = Some v \<and> \<not> is_dict v"
  with deep_merge_present [OF assms, of k v base]
  show "map_of (deep_merge base upd) k = Some v"
    by (cases v) (auto simp: merged_value_def split: option.splits pyval.splits)
next
  assume "map_of upd k = Some v \<and> (\<forall>d. map_of base k \<noteq> Some (PDict d))"
  with deep_merge_present [OF assms, of k v base]
  show "map_of (deep_merge base upd) k = Some v"
    by (auto simp: merged_value_def split: option.splits pyval.splits)
next
  show "fst ` set base \<subseteq> fst ` set (deep_merge base upd)" by (rule deep_merge_keys)
qed

text \<open>
  Claim C2, an instance: an override of the \<open>host\<close> list of the \<open>server\<close> section of the
  default document replaces the list and keeps the port.
\<close>

theorem deep_merge_spec_witness:
  "distinct (map fst [(''server'', PDict [(''host'', PList [PStr ''0.0.0.0''])]),
                      (''ui'', PStr ''none'')]) \<and>
   map_of (deep_merge (DEFAULT_CONFIG ''hello'')
             [(''server'', PDict [(''host'', PList [PStr ''0.0.0.0''])]), (''ui'', PStr ''none'')])
     ''server'' =
     Some (PDict (deep_merge
                    [(''port'', PInt 50002),
                     (''host'', PList [PStr ''localhost'', PStr ''127.0.0.1''])]
                    [(''host'', PList [PStr ''0.0.0.0''])])) \<and>
   deep_merge [(''port'', PInt 50002), (''host'', PList [PStr ''localhost'', PStr ''127.0.0.1''])]
              [(''host'', PList [PStr ''0.0.0.0''])] =
     [(''port'', PInt 50002), (''host'', PList [PStr ''0.0.0.0''])]"
proof -
  let ?upd = "[(''server'', PDict [(''host'', PList [PStr ''0.0.0.0''])]), (''ui'', PStr ''none'')]"
  have d: "distinct (map fst ?upd)" by simp
  have b: "map_of (DEFAULT_CONFIG ''hello'') ''server'' =
             Some (PDict [(''port'', PInt 50002),
                          (''host'', PList [PStr ''localhost'', PStr ''127.0.0.1''])])"
    by (simp add: DEFAULT_CONFIG_def)
  have u: "map_of ?upd ''server'' = Some (PDict [(''host'', PList [PStr ''0.0.0.0''])])"
    by simp
  from deep_merge_spec [OF d, of "''server''" "DEFAULT_CONFIG ''hello''"
      "[(''port'', PInt 50002), (''host'', PList [PStr ''localhost'', PStr ''127.0.0.1''])]"
      "[(''host'', PList [PStr ''0.0.0.0''])]"] b u d
  show ?thesis by simp
qed

lemma str_partition_found:
  assumes "c \<notin> set m"
  shows "str_partition c (m @ c # v) = (m, [c], v)"
proof -
  from assms have "takeWhile (\<lambda>x. x \<noteq> c) (m @ c # v) = m"
    and "dropWhile (\<lambda>x. x \<noteq> c) (m @ c # v) = c # v"
    by (induction m) auto
  then show ?thesis by (simp add: str_partition_def)
qed

lemma str_partition_absent: "c \<notin> set s \<Longrightarrow> str_partition c s = (s, [], [])"
  by (simp add: str_partition_def)

lemma set_item2_other:
  "set_item2 section key v cfg = (r, cfg') \<Longrightarrow> section \<noteq> other \<Longrightarrow>
   map_of cfg' other = map_of cfg other"
  by (auto simp: set_item2_def update_conv' split: option.splits pyval.splits)

lemma update_agent_result:
  assumes "map_of cfg ''agent'' = Some (PDict a)"
      and "str_partition CHR '':'' s = (m, sep, v)"
  shows "\<exists>c1 a1. update_agent (PStr s) cfg = (None, c1) \<and>
           map_of c1 ''agent'' = Some (PDict a1) \<and>
           map_of a1 ''module'' = Some (PStr m) \<and>
           map_of a1 ''rootAgent'' = (if v = [] then map_of a ''rootAgent'' else Some (PStr v))"
  using assms
  by (auto simp: update_agent_def seq_def skip_def set_item2_def update_conv')

lemma overrides_keep_agent:
  assumes "seq (if tp then set_item2 ''server'' ''port'' vp else skip)
          (seq (if tw then set_item2 ''websocket'' ''port'' vw else skip)
               (if th then seq (set_item2 ''server'' ''host'' vh1)
                               (set_item2 ''websocket'' ''host'' vh2) else skip)) c1 = (r, c2)"
  shows "map_of c2 ''agent'' = map_of c1 ''agent'' \<and> (\<not> tp \<and> \<not> tw \<and> \<not> th \<longrightarrow> r = None)"
  using assms
  by (auto simp: seq_def skip_def split: prod.splits option.splits if_splits
           dest!: set_item2_other [where other = "''agent''"])

text \<open>
  Claim C7. When the configuration has an \<open>agent\<close> section and \<open>update_from_cli\<close> is given
  a non-empty string \<open>s\<close> for \<open>agent\<close>: if \<open>s\<close> is \<open>m:v\<close> with no colon in \<open>m\<close> (the split
  is at the first colon), the module becomes \<open>m\<close> and the root agent becomes \<open>v\<close>, or keeps
  its value when \<open>v\<close> is empty; if \<open>s\<close> has no colon, the module becomes \<open>s\<close> and the root
  agent keeps its value. This holds of the configuration after the call whatever the other
  overrides do, and the call raises nothing when no other override is given.
\<close>

theorem update_from_cli_agent:
  assumes "map_of cfg ''agent'' = Some (PDict a)"
      and "dict_get kwargs ''agent'' = PStr s" and "s \<noteq> []"
      and "update_from_cli kwargs cfg = (r, cfg')"
  shows "(s = m @ CHR '':'' # v \<and> CHR '':'' \<notin> set m \<longrightarrow>
            get_item2 cfg' ''agent'' ''module'' = Some (PStr m) \<and>
            get_item2 cfg' ''agent'' ''rootAgent'' =
              (if v = [] then get_item2 cfg ''agent'' ''rootAgent'' else Some (PStr v))) \<and>
         (CHR '':'' \<notin> set s \<longrightarrow>
            get_item2 cfg' ''agent'' ''module'' = Some (PStr s) \<and>
            get_item2 cfg' ''agent'' ''rootAgent'' = get_item2 cfg ''agent'' ''rootAgent'') \<and>
         (\<not> truthy (dict_get kwargs ''port'') \<and> \<not> truthy (dict_get kwargs ''ws_port'') \<and>
          \<not> truthy (dict_get kwargs ''host'') \<longrightarrow> r = None)"
proof -
  obtain m0 sep v0 where part: "str_partition CHR '':'' s = (m0, sep, v0)"
    by (cases "str_partition CHR '':'' s") auto
  from update_agent_result [OF assms(1) part] obtain c1 a1 where
    step: "update_agent (PStr s) cfg = (None, c1)" and
    a1: "map_of c1 ''agent'' = Some (PDict a1)" and
    m1: "map_of a1 ''module'' = Some (PStr m0)" and
    v1: "map_of a1 ''rootAgent'' = (if v0 = [] then map_of a ''rootAgent'' else Some (PStr v0))"
    by blast
  from assms(2,3,4) step
  have rest: "seq (if truthy (dict_get kwargs ''port'')
                   then set_item2 ''server'' ''port'' (dict_get kwargs ''port'') else skip)
             (seq (if truthy (dict_get kwargs ''ws_port'')
                   then set_item2 ''websocket'' ''port'' (dict_get kwargs ''ws_port'') else skip)
                  (if truthy (dict_get kwargs ''host'')
                   then seq (set_item2 ''server'' ''host'' (PList [dict_get kwargs ''host'']))
                            (set_item2 ''websocket'' ''host'' (dict_get kwargs ''host''))
                   else skip)) c1 = (r, cfg')"
    by (simp add: update_from_cli_def seq_def [of "update_agent (PStr s)"])
  from overrides_keep_agent [OF rest] a1
  have keep: "map_of cfg' ''agent'' = Some (PDict a1)"
    and quiet: "\<not> truthy (dict_get kwargs ''port'') \<and> \<not> truthy (dict_get kwargs ''ws_port'') \<and>
          \<not> truthy (dict_get kwargs ''host'') \<longrightarrow> r = None"
    by auto
  have mod: "get_item2 cfg' ''agent'' ''module'' = Some (PStr m0)"
    and root: "get_item2 cfg' ''agent'' ''rootAgent'' =
      (if v0 = [] then get_item2 cfg ''agent'' ''rootAgent'' else Some (PStr v0))"
    using keep m1 v1 assms(1) by (simp_all add: get_item2_def)
  show ?thesis
  proof (intro conjI impI)
    assume h: "s = m @ CHR '':'' # v \<and> CHR '':'' \<notin> set m"
    with part str_partition_found [of "CHR '':''" m v] have "m0 = m" "v0 = v" by auto
    with mod root show "get_item2 cfg' ''agent'' ''module'' = Some (PStr m)"
      and "get_item2 cfg' ''agent'' ''rootAgent'' =
             (if v = [] then get_item2 cfg ''agent'' ''rootAgent'' else Some (PStr v))"
      by simp_all
  next
    assume h: "CHR '':'' \<notin> set s"
    with part str_partition_absent [of "CHR '':''" s] have "m0 = s" "v0 = []" by auto
    with mod root show "get_item2 cfg' ''agent'' ''module'' = Some (PStr s)"
      and "get_item2 cfg' ''agent'' ''rootAgent'' = get_item2 cfg ''agent'' ''rootAgent''"
      by simp_all
  next
    assume "\<not> truthy (dict_get kwargs ''port'') \<and> \<not> truthy (dict_get kwargs ''ws_port'') \<and>
          \<not> truthy (dict_get kwargs ''host'')"
    with quiet show "r = None" by blast
  qed
qed

text \<open>
  Claim C7, the two instances of the specification on the default document:
  \<open>pkg.mod:myAgent\<close> and \<open>pkg.mod\<close>.
\<close>

theorem update_from_cli_agent_witness:
  "get_item2 (snd (update_from_cli [(''agent'', PStr ''pkg.mod:myAgent'')] (DEFAULT_CONFIG ''hello'')))
     ''agent'' ''module'' = Some (PStr ''pkg.mod'') \<and>
   get_item2 (snd (update_from_cli [(''agent'', PStr ''pkg.mod:myAgent'')] (DEFAULT_CONFIG ''hello'')))
     ''agent'' ''rootAgent'' = Some (PStr ''myAgent'') \<and>
   fst (update_from_cli [(''agent'', PStr ''pkg.mod:myAgent'')] (DEFAULT_CONFIG ''hello'')) = None \<and>
   get_item2 (snd (update_from_cli [(''agent'', PStr ''pkg.mod'')] (DEFAULT_CONFIG ''hello'')))
     ''agent'' ''module'' = Some (PStr ''pkg.mod'') \<and>
   get_item2 (snd (update_from_cli [(''agent'', PStr ''pkg.mod'')] (DEFAULT_CONFIG ''hello'')))
     ''agent'' ''rootAgent'' = Some (PStr ''root_agent'')"
proof -
  let ?D = "DEFAULT_CONFIG ''hello''"
  let ?k1 = "[(''agent'', PStr ''pkg.mod:myAgent'')]"
  let ?k2 = "[(''agent'', PStr ''pkg.mod'')]"
  have a: "map_of ?D ''agent'' = Some (PDict
         [(''module'', PStr ''agent''),
          (''rootAgent'', PStr ''root_agent''),
          (''name'', PStr ''DP Agent Assistant''),
          (''description'', PStr ''AI Assistant powered by DP Agent SDK''),
          (''welcomeMessage'', PStr ''hello'')])"
    by (simp add: DEFAULT_CONFIG_def)
  have g1: "dict_get ?k1 ''agent'' = PStr ''pkg.mod:myAgent''" by (simp add: dict_get_def)
  have g2: "dict_get ?k2 ''agent'' = PStr ''pkg.mod''" by (simp add: dict_get_def)
  have n1: "''pkg.mod:myAgent'' \<noteq> []" and n2: "''pkg.mod'' \<noteq> []" by simp_all
  have r1: "update_from_cli ?k1 ?D = (fst (update_from_cli ?k1 ?D), snd (update_from_cli ?k1 ?D))"
    and r2: "update_from_cli ?k2 ?D = (fst (update_from_cli ?k2 ?D), snd (update_from_cli ?k2 ?D))"
    by simp_all
  from update_from_cli_agent [OF a g1 n1 r1, of "''pkg.mod''" "''myAgent''"]
    update_from_cli_agent [OF a g2 n2 r2]
  show ?thesis
    by (simp add: dict_get_def get_item2_def DEFAULT_CONFIG_def)
qed

text \<open>
  Claim C10. When the values given for \<open>agent\<close>, \<open>port\<close>, \<open>ws_port\<close> and \<open>host\<close> are all
  falsy (absent, \<open>None\<close>, \<open>0\<close>, the empty string), \<open>update_from_cli\<close> raises nothing and
  leaves the configuration as it is, as it does with no argument at all.
\<close>

theorem update_from_cli_falsy:
  assumes "\<not> truthy (dict_get kwargs ''agent'')" and "\<not> truthy (dict_get kwargs ''port'')"
      and "\<not> truthy (dict_get kwargs ''ws_port'')" and "\<not> truthy (dict_get kwargs ''host'')"
  shows "update_from_cli kwargs cfg = (None, cfg) \<and>
         update_from_cli kwargs cfg = update_from_cli [] cfg"
  using assms by (simp add: update_from_cli_def seq_def skip_def dict_get_def)

text \<open>
  Claim C10, an instance: an empty agent, port 0, websocket port 0 and an empty host on the
  default document.
\<close>

theorem update_from_cli_falsy_witness:
  "update_from_cli [(''agent'', PStr ''''), (''port'', PInt 0), (''ws_port'', PInt 0),
                    (''host'', PStr '''')] (DEFAULT_CONFIG ''hello'') =
     (None, DEFAULT_CONFIG ''hello'')"
proof -
  let ?k = "[(''agent'', PStr ''''), (''port'', PInt 0), (''ws_port'', PInt 0), (''host'', PStr '''')]"
  have "\<not> truthy (dict_get ?k ''agent'')" "\<not> truthy (dict_get ?k ''port'')"
    "\<not> truthy (dict_get ?k ''ws_port'')" "\<not> truthy (dict_get ?k ''host'')"
    by (simp_all add: dict_get_def)
  from update_from_cli_falsy [OF this] show ?thesis by simp
qed

section \<open>The process manager: claims\<close>


lemmas sim_defs = sim_os_def UIProcessManager_init_def cfg_get2_def joinpath_def Let_def
  backend_env_def

lemmas frontend_defs = start_frontend_server_def run_frontend_def launch_frontend_def
  check_frontend_def install_deps_def fallback_dev_mode_def frontend_cmd_def

lemma backend_crash_run:
  "fst (start_websocket_server (sim_os [''/ui/websocket-server.py''] True [])
          (UIProcessManager_init ''/ui'' [] [])) = Inl (RuntimeError Msg_ws_start_failed)"
  "processes (fst (snd (start_websocket_server (sim_os [''/ui/websocket-server.py''] True [])
          (UIProcessManager_init ''/ui'' [] [])))) = [10]"
  "Ev_poll 10 (Some 1) \<in> set (snd (snd (start_websocket_server
          (sim_os [''/ui/websocket-server.py''] True []) (UIProcessManager_init ''/ui'' [] []))))"
  by (simp_all add: start_websocket_server_def prog_defs sim_defs)

text \<open>
  Claim C1 says that after a failed liveness check the tracked list is the list before the
  call. This run refutes it: the script exists, the child has exited when it is polled, the
  call raises the start-up failure, and the list, empty before, holds the failed process.
\<close>

theorem start_websocket_server_failure_counterexample:
  "fst (start_websocket_server (sim_os [''/ui/websocket-server.py''] True [])
          (UIProcessManager_init ''/ui'' [] [])) = Inl (RuntimeError Msg_ws_start_failed) \<and>
   processes (UIProcessManager_init ''/ui'' [] ([] :: nat list)) = [] \<and>
   processes (fst (snd (start_websocket_server (sim_os [''/ui/websocket-server.py''] True [])
          (UIProcessManager_init ''/ui'' [] [])))) = [10] \<and>
   processes (fst (snd (start_websocket_server (sim_os [''/ui/websocket-server.py''] True [])
          (UIProcessManager_init ''/ui'' [] [])))) \<noteq>
     processes (UIProcessManager_init ''/ui'' [] ([] :: nat list))"
  by (simp add: backend_crash_run) (simp add: UIProcessManager_init_def)

text \<open>
  Claim C1, as the code has it. When the liveness poll of \<open>start_websocket_server\<close> finds that
  the child \<open>p\<close> has exited, the poll is the last event and follows the sleep of 2, the call
  raises \<open>RuntimeError\<close> with the start-up failure message, and the tracked list is the list
  before the call with \<open>p\<close> appended: the process was appended right after \<open>Popen\<close> and
  stays tracked until \<open>cleanup\<close>.
\<close>

theorem start_websocket_server_failure:
  assumes "start_websocket_server os s = (r, s', t)" and "Ev_poll p (Some rc) \<in> set t"
  shows "r = Inl (RuntimeError Msg_ws_start_failed) \<and> processes s' = processes s @ [p] \<and>
         (\<exists>t0. t = t0 @ [Ev_sleep 2, Ev_poll p (Some rc)])"
  using assms
  by (auto simp: start_websocket_server_def prog_defs Let_def
           split: prod.splits sum.splits if_splits option.splits)

text \<open>Claim C1, as the code has it, on the run of the counterexample.\<close>

theorem start_websocket_server_failure_witness:
  "Ev_poll 10 (Some 1) \<in> set (snd (snd (start_websocket_server
          (sim_os [''/ui/websocket-server.py''] True []) (UIProcessManager_init ''/ui'' [] [])))) \<and>
   fst (start_websocket_server (sim_os [''/ui/websocket-server.py''] True [])
          (UIProcessManager_init ''/ui'' [] [])) = Inl (RuntimeError Msg_ws_start_failed) \<and>
   processes (fst (snd (start_websocket_server (sim_os [''/ui/websocket-server.py''] True [])
          (UIProcessManager_init ''/ui'' [] [])))) =
     processes (UIProcessManager_init ''/ui'' [] ([] :: nat list)) @ [10]"
proof -
  let ?X = "start_websocket_server (sim_os [''/ui/websocket-server.py''] True [])
          (UIProcessManager_init ''/ui'' [] [])"
  have run: "?X = (fst ?X, fst (snd ?X), snd (snd ?X))" by simp
  from start_websocket_server_failure [OF run backend_crash_run(3)] backend_crash_run(3)
  show ?thesis by simp
qed

lemma start_websocket_server_ok:
  assumes "start_websocket_server os s = (Inr b, s', t)"
  shows "processes s' = processes s @ [b]"
  using assms
  by (auto simp: start_websocket_server_def prog_defs Let_def
           split: prod.splits sum.splits if_splits option.splits)

lemma cleanup_total:
  "\<exists>s' t. cleanup os s = (Inr (), s', t) \<and> processes s' = []"
proof (cases "processes s = []")
  case True
  then show ?thesis by (simp add: cleanup_empty)
next
  case False
  obtain r s' t where c: "cleanup os s = (r, s', t)" by (cases "cleanup os s")
  from cleanup_nonempty [OF False c] c show ?thesis by simp
qed

text \<open>
  Claim C5. \<open>cleanup\<close> on a manager that tracks nothing returns without an exception, an
  event or a change of state. On any manager it returns without an exception and leaves the
  tracked list empty; a second call right after it returns without an exception and changes
  nothing, so two calls end in the state of one.
\<close>

theorem cleanup_idempotent:
  "cleanup os (s\<lparr>processes := []\<rparr>) = (Inr (), s\<lparr>processes := []\<rparr>, []) \<and>
   fst (cleanup os s) = Inr () \<and>
   processes (fst (snd (cleanup os s))) = [] \<and>
   cleanup os (fst (snd (cleanup os s))) = (Inr (), fst (snd (cleanup os s)), [])"
proof -
  obtain s' t where c: "cleanup os s = (Inr (), s', t)" and e: "processes s' = []"
    using cleanup_total by blast
  from c e show ?thesis by (simp add: cleanup_empty)
qed

lemma cleanup_run:
  "cleanup (sim_os [] False [])
     \<lparr>ui_dir = ''/ui'', config = [], processes = [4, 6, 7], world = [6, 7]\<rparr> =
   (Inr (), \<lparr>ui_dir = ''/ui'', config = [], processes = [], world = []\<rparr>,
    [Ev_poll 4 (Some 1), Ev_poll 6 None, Ev_terminate 6 None, Ev_poll 7 None,
     Ev_terminate 7 None, Ev_sleep (1 / 2), Ev_poll 4 (Some 1), Ev_poll 6 (Some 1),
     Ev_poll 7 None, Ev_kill 7 None, Ev_wait 7 (1 / 2) None])"
  by (simp add: cleanup_def terminate_one_def kill_one_def prog_defs sim_os_def)

text \<open>Claim C5, an instance: three tracked processes, the first of which has exited.\<close>

theorem cleanup_idempotent_witness:
  "fst (cleanup (sim_os [] False [])
     \<lparr>ui_dir = ''/ui'', config = [], processes = [4, 6, 7], world = [6, 7]\<rparr>) = Inr () \<and>
   cleanup (sim_os [] False [])
     (fst (snd (cleanup (sim_os [] False [])
        \<lparr>ui_dir = ''/ui'', config = [], processes = [4, 6, 7], world = [6, 7]\<rparr>))) =
     (Inr (), \<lparr>ui_dir = ''/ui'', config = [], processes = [], world = []\<rparr>, [])"
  using cleanup_idempotent [of "sim_os [] False []"
      "\<lparr>ui_dir = ''/ui'', config = [], processes = [4, 6, 7], world = [6, 7]\<rparr>"]
  unfolding cleanup_run by simp

text \<open>
  Claim C6. On a manager that tracks at least one process, \<open>cleanup\<close> raises nothing, leaves
  the tracked list empty, and its events are: the terminate round over the tracked processes
  (each polled, each running one sent \<open>terminate\<close>, whatever the call answers), one sleep of a
  half, and the kill round over the tracked processes (each polled, each running one sent
  \<open>kill\<close> and, unless \<open>kill\<close> raised, waited for with a timeout of a half, whatever the
  wait answers).
\<close>

theorem cleanup_sequence:
  assumes "processes s \<noteq> []" and "cleanup os s = (r, s', t)"
  shows "r = Inr () \<and> processes s' = [] \<and>
         (\<exists>t1 t2. t = t1 @ [Ev_sleep (1 / 2)] @ t2 \<and>
            terminate_phase (processes s) t1 \<and> kill_phase (processes s) t2)"
  using assms by (rule cleanup_nonempty)

text \<open>
  Claim C6, an instance: process 4 has exited, process 6 ends on \<open>terminate\<close>, process 7
  ignores it and is killed.
\<close>

theorem cleanup_sequence_witness:
  "processes \<lparr>ui_dir = ''/ui'', config = [], processes = [4, 6, 7], world = [6, 7 :: nat]\<rparr> \<noteq> [] \<and>
   snd (snd (cleanup (sim_os [] False [])
     \<lparr>ui_dir = ''/ui'', config = [], processes = [4, 6, 7], world = [6, 7]\<rparr>)) =
     [Ev_poll 4 (Some 1), Ev_poll 6 None, Ev_terminate 6 None, Ev_poll 7 None,
      Ev_terminate 7 None, Ev_sleep (1 / 2), Ev_poll 4 (Some 1), Ev_poll 6 (Some 1),
      Ev_poll 7 None, Ev_kill 7 None, Ev_wait 7 (1 / 2) None] \<and>
   (\<exists>t1 t2.
      snd (snd (cleanup (sim_os [] False [])
        \<lparr>ui_dir = ''/ui'', config = [], processes = [4, 6, 7], world = [6, 7]\<rparr>)) =
        t1 @ [Ev_sleep (1 / 2)] @ t2 \<and>
      terminate_phase [4, 6, 7] t1 \<and> kill_phase [4, 6, 7] t2)"
proof -
  let ?s = "\<lparr>ui_dir = ''/ui'', config = [], processes = [4, 6, 7], world = [6, 7 :: nat]\<rparr>"
  have ne: "processes ?s \<noteq> []" by simp
  from cleanup_sequence [OF ne cleanup_run] ne show ?thesis
    unfolding cleanup_run by simp
qed

text \<open>
  Claim C9. When \<open>start_websocket_server\<close> returns the process \<open>b\<close> and
  \<open>start_frontend_server\<close>, called next, returns the process \<open>f\<close>, the tracked list is the
  list before the two calls followed by \<open>b\<close> and \<open>f\<close>, in this order; on a manager that
  tracked nothing before (a new one) the list is \<open>[b, f]\<close> and its first element is the
  backend.
\<close>

theorem startup_order:
  assumes "start_websocket_server os s0 = (Inr b, s1, t1)"
      and "start_frontend_server os dev_mode s1 = (Inr (Some f), s2, t2)"
  shows "processes s2 = processes s0 @ [b, f] \<and>
         (processes s0 = [] \<longrightarrow> processes s2 = [b, f] \<and> hd (processes s2) = b)"
  using start_websocket_server_ok [OF assms(1)] start_frontend_server_ok [OF assms(2)]
  by simp

lemma both_started_run:
  "fst (start_websocket_server
     (sim_os [''/ui/websocket-server.py'', ''/ui/frontend'', ''/ui/frontend/node_modules''] False [])
     (UIProcessManager_init ''/ui'' [] [])) = Inr 10"
  "fst (snd (start_websocket_server
     (sim_os [''/ui/websocket-server.py'', ''/ui/frontend'', ''/ui/frontend/node_modules''] False [])
     (UIProcessManager_init ''/ui'' [] []))) =
     \<lparr>ui_dir = ''/ui'', config = [], processes = [10], world = [10]\<rparr>"
  "fst (start_frontend_server
     (sim_os [''/ui/websocket-server.py'', ''/ui/frontend'', ''/ui/frontend/node_modules''] False [])
     True \<lparr>ui_dir = ''/ui'', config = [], processes = [10], world = [10]\<rparr>) = Inr (Some 11)"
  "fst (snd (start_frontend_server
     (sim_os [''/ui/websocket-server.py'', ''/ui/frontend'', ''/ui/frontend/node_modules''] False [])
     True \<lparr>ui_dir = ''/ui'', config = [], processes = [10], world = [10]\<rparr>)) =
     \<lparr>ui_dir = ''/ui'', config = [], processes = [10, 11], world = [10, 11]\<rparr>"
  by (simp_all add: start_websocket_server_def frontend_defs prog_defs sim_defs)

text \<open>Claim C9, an instance: both children start on a new manager.\<close>

theorem startup_order_witness:
  "processes (UIProcessManager_init ''/ui'' [] ([] :: nat list)) = [] \<and>
   fst (start_websocket_server
     (sim_os [''/ui/websocket-server.py'', ''/ui/frontend'', ''/ui/frontend/node_modules''] False [])
     (UIProcessManager_init ''/ui'' [] [])) = Inr 10 \<and>
   fst (start_frontend_server
     (sim_os [''/ui/websocket-server.py'', ''/ui/frontend'', ''/ui/frontend/node_modules''] False [])
     True
     (fst (snd (start_websocket_server
       (sim_os [''/ui/websocket-server.py'', ''/ui/frontend'', ''/ui/frontend/node_modules'']
          False [])
       (UIProcessManager_init ''/ui'' [] []))))) = Inr (Some 11) \<and>
   processes (fst (snd (start_frontend_server
     (sim_os [''/ui/websocket-server.py'', ''/ui/frontend'', ''/ui/frontend/node_modules''] False [])
     True
     (fst (snd (start_websocket_server
       (sim_os [''/ui/websocket-server.py'', ''/ui/frontend'', ''/ui/frontend/node_modules'']
          False [])
       (UIProcessManager_init ''/ui'' [] []))))))) = [10, 11] \<and>
   hd (processes (fst (snd (start_frontend_server
     (sim_os [''/ui/websocket-server.py'', ''/ui/frontend'', ''/ui/frontend/node_modules''] False [])
     True
     (fst (snd (start_websocket_server
       (sim_os [''/ui/websocket-server.py'', ''/ui/frontend'', ''/ui/frontend/node_modules'']
          False [])
       (UIProcessManager_init ''/ui'' [] [])))))))) = 10"
proof -
  let ?os = "sim_os [''/ui/websocket-server.py'', ''/ui/frontend'', ''/ui/frontend/node_modules'']
               False []"
  let ?X = "start_websocket_server ?os (UIProcessManager_init ''/ui'' [] [])"
  let ?Y = "start_frontend_server ?os True (fst (snd ?X))"
  have e: "processes (UIProcessManager_init ''/ui'' [] ([] :: nat list)) = []"
    by (simp add: UIProcessManager_init_def)
  have x: "?X = (Inr 10, fst (snd ?X), snd (snd ?X))"
    by (simp add: prod_eq_iff both_started_run(1))
  have y: "?Y = (Inr (Some 11), fst (snd ?Y), snd (snd ?Y))"
    by (simp add: prod_eq_iff both_started_run)
  from startup_order [OF x y] e show ?thesis
    by (simp add: both_started_run)
qed

lemma frontend_fallback_run:
  "fst (start_frontend_server (sim_os [''/ui/frontend'', ''/ui/frontend/node_modules''] False [])
          False (UIProcessManager_init ''/ui'' [] [])) = Inr (Some 10)"
  "spawned (snd (snd (start_frontend_server
          (sim_os [''/ui/frontend'', ''/ui/frontend/node_modules''] False [])
          False (UIProcessManager_init ''/ui'' [] [])))) = [[''npm'', ''run'', ''dev'']]"
  "take 4 (snd (snd (start_frontend_server
          (sim_os [''/ui/frontend'', ''/ui/frontend/node_modules''] False [])
          False (UIProcessManager_init ''/ui'' [] [])))) =
     [Ev_exists ''/ui/frontend'' True, Ev_exists ''/ui/frontend/ui-static'' False,
      Ev_exists ''/ui/frontend/ui-static'' False, Ev_echo Msg_warn_no_static]"
  by (simp_all add: frontend_defs prog_defs sim_defs)

lemma frontend_static_run:
  "start_frontend_server (sim_os [''/ui/frontend'', ''/ui/frontend/ui-static''] False []) False
     \<lparr>ui_dir = ''/ui'', config = [], processes = [7], world = [7]\<rparr> =
   (Inr None, \<lparr>ui_dir = ''/ui'', config = [], processes = [7], world = [7]\<rparr>,
    [Ev_exists ''/ui/frontend'' True, Ev_exists ''/ui/frontend/ui-static'' True,
     Ev_echo (Msg_ui_started (PInt 8000)), Ev_echo Msg_static_mode])"
  by (simp add: frontend_defs prog_defs sim_defs)

text \<open>
  Claim C3 says that with \<open>dev_mode\<close> false the process started runs the build command.
  This run refutes it: with \<open>dev_mode\<close> false and no \<open>ui-static\<close> directory a process is started
  and its command is \<open>npm run dev\<close>.
\<close>

theorem start_frontend_server_command_counterexample:
  "fst (start_frontend_server (sim_os [''/ui/frontend'', ''/ui/frontend/node_modules''] False [])
          False (UIProcessManager_init ''/ui'' [] [])) = Inr (Some 10) \<and>
   spawned (snd (snd (start_frontend_server
          (sim_os [''/ui/frontend'', ''/ui/frontend/node_modules''] False [])
          False (UIProcessManager_init ''/ui'' [] [])))) = [[''npm'', ''run'', ''dev'']] \<and>
   spawned (snd (snd (start_frontend_server
          (sim_os [''/ui/frontend'', ''/ui/frontend/node_modules''] False [])
          False (UIProcessManager_init ''/ui'' [] [])))) \<noteq> [[''npm'', ''run'', ''build'']]"
  by (simp add: frontend_fallback_run)

text \<open>
  Claim C3, as the code has it. A call of \<open>start_frontend_server\<close> starts at most one
  process, with \<open>npm run dev\<close> or \<open>npm run build\<close>; a process it returns is one it started
  and is the new last element of the tracked list; it returns \<open>None\<close> only with \<open>dev_mode\<close>
  false and both tests of lines 158 and 163 answered yes. With \<open>dev_mode\<close> true the command
  is \<open>npm run dev\<close>. With \<open>dev_mode\<close> false the trace begins in one of five ways, by what the
  tests of lines 158, 163 and 169 answer (\<open>ui\<close> is the frontend directory and \<open>sdir\<close> its
  \<open>ui-static\<close> subdirectory):
    \<^item> the configuration could not be read, or the frontend directory is missing: nothing
      is started;
    \<^item> the test of line 163 finds \<open>ui-static\<close>: the two lines are printed, nothing is
      started, \<open>None\<close> is returned and the tracked list is the one before the call;
    \<^item> the tests of lines 163 and 169 both find no \<open>ui-static\<close>: the warning of line 170 is
      the next thing printed and the command is \<open>npm run dev\<close>;
    \<^item> the test of line 163 finds no \<open>ui-static\<close> and the one of line 169 finds it: the
      command is \<open>npm run build\<close>. This is the only way to the build command.
\<close>

theorem start_frontend_server_command:
  assumes "start_frontend_server os dev_mode s = (r, s', t)"
      and "ui = joinpath (ui_dir s) ''frontend''" and "sdir = joinpath ui ''ui-static''"
  shows "(spawned t = [] \<or> spawned t = [[''npm'', ''run'', ''dev'']] \<or>
          spawned t = [[''npm'', ''run'', ''build'']]) \<and>
         (r = Inr (Some p) \<longrightarrow> spawned t \<noteq> [] \<and> processes s' = processes s @ [p]) \<and>
         (r = Inr None \<longrightarrow>
            \<not> dev_mode \<and> take 2 t = [Ev_exists ui True, Ev_exists sdir True]) \<and>
         (dev_mode \<longrightarrow>
            (spawned t = [] \<or> spawned t = [[''npm'', ''run'', ''dev'']]) \<and>
            (r = Inr (Some p) \<longrightarrow> spawned t = [[''npm'', ''run'', ''dev'']])) \<and>
         (\<not> dev_mode \<longrightarrow>
            (t = [] \<or> t = [Ev_exists ui False] \<or>
             take 2 t = [Ev_exists ui True, Ev_exists sdir True] \<or>
             take 3 t = [Ev_exists ui True, Ev_exists sdir False, Ev_exists sdir False] \<or>
             take 3 t = [Ev_exists ui True, Ev_exists sdir False, Ev_exists sdir True]) \<and>
            (take 2 t = [Ev_exists ui True, Ev_exists sdir True] \<longrightarrow>
               r = Inr None \<and> spawned t = [] \<and> processes s' = processes s \<and>
               (\<exists>port. t = [Ev_exists ui True, Ev_exists sdir True,
                             Ev_echo (Msg_ui_started port), Ev_echo Msg_static_mode])) \<and>
            (take 3 t = [Ev_exists ui True, Ev_exists sdir False, Ev_exists sdir False] \<longrightarrow>
               take 4 t = [Ev_exists ui True, Ev_exists sdir False, Ev_exists sdir False,
                           Ev_echo Msg_warn_no_static] \<and>
               (spawned t = [] \<or> spawned t = [[''npm'', ''run'', ''dev'']]) \<and>
               (r = Inr (Some p) \<longrightarrow> spawned t = [[''npm'', ''run'', ''dev'']])) \<and>
            (take 3 t = [Ev_exists ui True, Ev_exists sdir False, Ev_exists sdir True] \<longrightarrow>
               (spawned t = [] \<or> spawned t = [[''npm'', ''run'', ''build'']]) \<and>
               (r = Inr (Some p) \<longrightarrow> spawned t = [[''npm'', ''run'', ''build'']])))"
  using assms
proof (cases rule: start_frontend_cases)
  case (config e)
  then show ?thesis by simp
next
  case missing
  then show ?thesis by simp
next
  case (static port)
  then show ?thesis by simp
next
  case (dev port built s2 t2)
  from run_spawned [OF dev(2)] run_not_none [OF dev(2)] dev(1,4)
  have a: "spawned t = [] \<or> spawned t = [[''npm'', ''run'', ''dev'']]" "r \<noteq> Inr None"
    "dev_mode"
    by (auto simp: spawned_append)
  have b: "r = Inr (Some p) \<longrightarrow>
           spawned t = [[''npm'', ''run'', ''dev'']] \<and> processes s' = processes s @ [p]"
  proof
    assume "r = Inr (Some p)"
    with dev(2) have "run_frontend os (config s) ui port True s2 = (Inr (Some p), s', t2)"
      by simp
    from run_ok [OF this] dev(3,4)
    show "spawned t = [[''npm'', ''run'', ''dev'']] \<and> processes s' = processes s @ [p]"
      by (auto simp: spawned_append)
  qed
  from a b show ?thesis by auto
next
  case (fallback port s2 t2)
  from run_spawned [OF fallback(2)] run_not_none [OF fallback(2)] fallback(1,4)
  have a: "spawned t = [] \<or> spawned t = [[''npm'', ''run'', ''dev'']]" "r \<noteq> Inr None"
    "\<not> dev_mode"
    by (auto simp: spawned_append)
  have b: "r = Inr (Some p) \<longrightarrow>
           spawned t = [[''npm'', ''run'', ''dev'']] \<and> processes s' = processes s @ [p]"
  proof
    assume "r = Inr (Some p)"
    with fallback(2)
    have "run_frontend os (config s) ui port True s2 = (Inr (Some p), s', t2)" by simp
    from run_ok [OF this] fallback(3,4)
    show "spawned t = [[''npm'', ''run'', ''dev'']] \<and> processes s' = processes s @ [p]"
      by (auto simp: spawned_append)
  qed
  from a b fallback(4) show ?thesis by auto
next
  case (build port s2 t2)
  from run_spawned [OF build(2)] run_not_none [OF build(2)] build(1,4)
  have a: "spawned t = [] \<or> spawned t = [[''npm'', ''run'', ''build'']]" "r \<noteq> Inr None"
    "\<not> dev_mode"
    by (auto simp: spawned_append)
  have b: "r = Inr (Some p) \<longrightarrow>
           spawned t = [[''npm'', ''run'', ''build'']] \<and> processes s' = processes s @ [p]"
  proof
    assume "r = Inr (Some p)"
    with build(2)
    have "run_frontend os (config s) ui port False s2 = (Inr (Some p), s', t2)" by simp
    from run_ok [OF this] build(3,4)
    show "spawned t = [[''npm'', ''run'', ''build'']] \<and> processes s' = processes s @ [p]"
      by (auto simp: spawned_append)
  qed
  from a b build(4) show ?thesis by auto
qed

text \<open>
  Claim C3, as the code has it, on two runs with \<open>dev_mode\<close> false: the run of the
  counterexample, which warns and starts \<open>npm run dev\<close>, and a run with the static files,
  which starts nothing.
\<close>

theorem start_frontend_server_command_witness:
  "take 3 (snd (snd (start_frontend_server
          (sim_os [''/ui/frontend'', ''/ui/frontend/node_modules''] False [])
          False (UIProcessManager_init ''/ui'' [] [])))) =
     [Ev_exists ''/ui/frontend'' True, Ev_exists ''/ui/frontend/ui-static'' False,
      Ev_exists ''/ui/frontend/ui-static'' False] \<and>
   take 4 (snd (snd (start_frontend_server
          (sim_os [''/ui/frontend'', ''/ui/frontend/node_modules''] False [])
          False (UIProcessManager_init ''/ui'' [] [])))) =
     [Ev_exists ''/ui/frontend'' True, Ev_exists ''/ui/frontend/ui-static'' False,
      Ev_exists ''/ui/frontend/ui-static'' False, Ev_echo Msg_warn_no_static] \<and>
   fst (start_frontend_server (sim_os [''/ui/frontend'', ''/ui/frontend/node_modules''] False [])
          False (UIProcessManager_init ''/ui'' [] [])) = Inr (Some 10) \<and>
   spawned (snd (snd (start_frontend_server
          (sim_os [''/ui/frontend'', ''/ui/frontend/node_modules''] False [])
          False (UIProcessManager_init ''/ui'' [] [])))) = [[''npm'', ''run'', ''dev'']] \<and>
   fst (start_frontend_server (sim_os [''/ui/frontend'', ''/ui/frontend/ui-static''] False [])
          False \<lparr>ui_dir = ''/ui'', config = [], processes = [7], world = [7]\<rparr>) = Inr None \<and>
   spawned (snd (snd (start_frontend_server
          (sim_os [''/ui/frontend'', ''/ui/frontend/ui-static''] False [])
          False \<lparr>ui_dir = ''/ui'', config = [], processes = [7], world = [7]\<rparr>))) = []"
proof -
  let ?X = "start_frontend_server (sim_os [''/ui/frontend'', ''/ui/frontend/node_modules''] False [])
          False (UIProcessManager_init ''/ui'' [] [])"
  let ?Y = "start_frontend_server (sim_os [''/ui/frontend'', ''/ui/frontend/ui-static''] False [])
          False \<lparr>ui_dir = ''/ui'', config = [], processes = [7], world = [7 :: nat]\<rparr>"
  have x: "?X = (fst ?X, fst (snd ?X), snd (snd ?X))"
    and y: "?Y = (fst ?Y, fst (snd ?Y), snd (snd ?Y))" by simp_all
  have t3: "take 3 (snd (snd ?X)) = take 3 (take 4 (snd (snd ?X)))" by simp
  from start_frontend_server_command [OF x refl refl, of 10]
    start_frontend_server_command [OF y refl refl, of 10]
  show ?thesis
    unfolding t3 frontend_fallback_run frontend_static_run by simp
qed









text \<open>
  Claim C8. When the tests of lines 158 and 163 find the \<open>frontend\<close> directory and its
  \<open>ui-static\<close> subdirectory (and the server port can be read from the configuration),
  \<open>start_frontend_server\<close> with \<open>dev_mode\<close> false returns \<open>None\<close>, makes the two tests, prints
  two lines and does nothing else: the manager is the one before the call in the world the
  two tests have left, the tracked list in it unchanged, and no process is started.
\<close>

theorem start_frontend_server_static:
  assumes "os_exists os (joinpath (ui_dir s) ''frontend'') (world s) = (True, w1)"
      and "os_exists os (joinpath (joinpath (ui_dir s) ''frontend'') ''ui-static'') w1 = (True, w2)"
      and "cfg_get2 (config s) ''server'' ''port'' (PInt 8000) = Inr port"
  shows "start_frontend_server os False s =
           (Inr None, s\<lparr>world := w2\<rparr>,
            [Ev_exists (joinpath (ui_dir s) ''frontend'') True,
             Ev_exists (joinpath (joinpath (ui_dir s) ''frontend'') ''ui-static'') True,
             Ev_echo (Msg_ui_started port), Ev_echo Msg_static_mode]) \<and>
         processes (fst (snd (start_frontend_server os False s))) = processes s \<and>
         spawned (snd (snd (start_frontend_server os False s))) = []"
  using assms by (simp add: start_frontend_server_unfold)

text \<open>Claim C8, an instance: a manager that tracks one process keeps exactly that one.\<close>

theorem start_frontend_server_static_witness:
  "start_frontend_server (sim_os [''/ui/frontend'', ''/ui/frontend/ui-static''] False []) False
     \<lparr>ui_dir = ''/ui'', config = [], processes = [7], world = [7]\<rparr> =
   (Inr None, \<lparr>ui_dir = ''/ui'', config = [], processes = [7], world = [7]\<rparr>,
    [Ev_exists ''/ui/frontend'' True, Ev_exists ''/ui/frontend/ui-static'' True,
     Ev_echo (Msg_ui_started (PInt 8000)), Ev_echo Msg_static_mode])"
proof -
  let ?os = "sim_os [''/ui/frontend'', ''/ui/frontend/ui-static''] False []"
  let ?s = "\<lparr>ui_dir = ''/ui'', config = [], processes = [7], world = [7 :: nat]\<rparr>"
  have a: "os_exists ?os (joinpath (ui_dir ?s) ''frontend'') (world ?s) = (True, [7])"
    and b: "os_exists ?os (joinpath (joinpath (ui_dir ?s) ''frontend'') ''ui-static'') [7]
              = (True, [7])"
    and c: "cfg_get2 (config ?s) ''server'' ''port'' (PInt 8000) = Inr (PInt 8000)"
    by (simp_all add: sim_defs)
  from start_frontend_server_static [OF a b c] show ?thesis by (simp add: joinpath_def)
qed

end
